theory Spec2Isabelle
  imports Complex_Main "HOL-Library.Word"
begin

section \<open>Values, exceptions and the outside world\<close>

text \<open>
  \<^verbatim>\<open>auto_cover_art.py\<close> is a linear pipeline over two subprocesses (ffprobe, fpcalc),
  two HTTP services (AcoustID, Cover Art Archive) and the mutagen tagging library.
  The embedding keeps every control path of the script: each \<^verbatim>\<open>try/except\<close>, each
  truthiness test, each early \<^verbatim>\<open>return\<close> and \<^verbatim>\<open>continue\<close>.  What the script
  receives from outside (process output, HTTP bodies, library calls that may raise) is
  a parameter of the model, so every theorem holds for all behaviours of the outside.
\<close>

subsection \<open>Values produced by \<^verbatim>\<open>json.loads\<close>\<close>

text \<open>
  A Python float is a finite rational, an infinity or NaN (\<^verbatim>\<open>json.loads\<close> accepts the
  literals \<^verbatim>\<open>Infinity\<close> and \<^verbatim>\<open>NaN\<close>).  A dict is an association list read by its
  first binding of a key.
\<close>

datatype pyfloat = Finite rat | PosInf | NegInf | NaN

datatype json =
    JNull
  | JBool bool
  | JInt int
  | JFloat pyfloat
  | JStr string
  | JList "json list"
  | JObj "(string \<times> json) list"

type_synonym bytes = "8 word list"

text \<open>The exceptions (subclasses of \<^verbatim>\<open>Exception\<close>) that the script can meet.\<close>

datatype exn =
    CalledProcessError int
  | FileNotFoundError
  | JSONDecodeError
  | HTTPError int
  | AttributeError
  | TypeError
  | ValueError
  | OverflowError
  | IndexError
  | KeyError
  | OtherException string

definition ebind :: "exn + 'a \<Rightarrow> ('a \<Rightarrow> exn + 'b) \<Rightarrow> exn + 'b" where
  "ebind m f = (case m of Inl x \<Rightarrow> Inl x | Inr v \<Rightarrow> f v)"

text \<open>\<^verbatim>\<open>bool(v)\<close>, as used by \<^verbatim>\<open>if v\<close> and \<^verbatim>\<open>not v\<close>.\<close>

fun py_truthy :: "json \<Rightarrow> bool" where
  "py_truthy JNull = False"
| "py_truthy (JBool b) = b"
| "py_truthy (JInt i) = (i \<noteq> 0)"
| "py_truthy (JFloat (Finite q)) = (q \<noteq> 0)"
| "py_truthy (JFloat _) = True"
| "py_truthy (JStr s) = (s \<noteq> [])"
| "py_truthy (JList xs) = (xs \<noteq> [])"
| "py_truthy (JObj kvs) = (kvs \<noteq> [])"

text \<open>\<^verbatim>\<open>v.get(key, default)\<close>: only a dict has the method.\<close>

fun py_get :: "json \<Rightarrow> string \<Rightarrow> json \<Rightarrow> exn + json" where
  "py_get (JObj kvs) k dflt = Inr (case map_of kvs k of None \<Rightarrow> dflt | Some v \<Rightarrow> v)"
| "py_get _ k dflt = Inl AttributeError"

text \<open>
  \<^verbatim>\<open>for x in v\<close>: a list yields its elements, a string its characters, a dict its
  keys; anything else is not iterable.
\<close>

fun py_iter :: "json \<Rightarrow> exn + json list" where
  "py_iter (JList xs) = Inr xs"
| "py_iter (JStr s) = Inr (map (\<lambda>c. JStr [c]) s)"
| "py_iter (JObj kvs) = Inr (map JStr (remdups (map fst kvs)))"
| "py_iter _ = Inl TypeError"

text \<open>\<^verbatim>\<open>len(v)\<close>.\<close>

fun py_len :: "json \<Rightarrow> exn + nat" where
  "py_len (JList xs) = Inr (length xs)"
| "py_len (JStr s) = Inr (length s)"
| "py_len (JObj kvs) = Inr (length (remdups (map fst kvs)))"
| "py_len _ = Inl TypeError"

text \<open>\<^verbatim>\<open>v[0]\<close>.\<close>

fun py_subscript0 :: "json \<Rightarrow> exn + json" where
  "py_subscript0 (JList []) = Inl IndexError"
| "py_subscript0 (JList (x # xs)) = Inr x"
| "py_subscript0 (JStr []) = Inl IndexError"
| "py_subscript0 (JStr (c # cs)) = Inr (JStr [c])"
| "py_subscript0 (JObj kvs) = Inl KeyError"
| "py_subscript0 _ = Inl TypeError"

text \<open>
  \<^verbatim>\<open>int(v)\<close>: a float is truncated towards zero (NaN and the infinities raise), a
  bool counts as 0 or 1, a string is parsed by the interpreter (the parser is the
  parameter \<open>int_of_str\<close>, \<open>None\<close> for \<^verbatim>\<open>ValueError\<close>), everything else is a
  \<^verbatim>\<open>TypeError\<close>.
\<close>

definition truncate_rat :: "rat \<Rightarrow> int" where
  "truncate_rat q = (if 0 \<le> q then \<lfloor>q\<rfloor> else \<lceil>q\<rceil>)"

fun py_int :: "(string \<Rightarrow> int option) \<Rightarrow> json \<Rightarrow> exn + int" where
  "py_int p (JInt i) = Inr i"
| "py_int p (JBool b) = Inr (if b then 1 else 0)"
| "py_int p (JFloat (Finite q)) = Inr (truncate_rat q)"
| "py_int p (JFloat NaN) = Inl ValueError"
| "py_int p (JFloat _) = Inl OverflowError"
| "py_int p (JStr s) = (case p s of None \<Rightarrow> Inl ValueError | Some i \<Rightarrow> Inr i)"
| "py_int p _ = Inl TypeError"

subsection \<open>Tag containers, as mutagen presents them\<close>

datatype ImageFormat = FORMAT_JPEG | FORMAT_PNG

text \<open>\<^verbatim>\<open>MP4Cover(data, imageformat)\<close>.\<close>

datatype MP4Cover = MP4Cover (cover_data: bytes) (imageformat: ImageFormat)

text \<open>The MP4 tag dict: the \<^verbatim>\<open>covr\<close> entry and all other atoms.\<close>

record mp4tags =
  covr :: "MP4Cover list"
  mp4_other :: "(string \<times> string) list"

text \<open>\<^verbatim>\<open>mutagen.flac.Picture\<close>: the fields the script sets; the rest keep their defaults.\<close>

record Picture =
  pic_type :: nat
  pic_mime :: string
  pic_desc :: string
  pic_data :: bytes

definition Picture_new :: Picture where
  "Picture_new = \<lparr>pic_type = 0, pic_mime = [], pic_desc = [], pic_data = []\<rparr>"

record flac =
  pictures :: "Picture list"
  vorbis_comments :: "(string \<times> string) list"

text \<open>An ID3 frame: an attached picture or any other frame (kept by its frame id).\<close>

datatype frame =
    APIC (apic_encoding: nat) (apic_mime: string) (apic_type: nat) (apic_desc: string) (apic_data: bytes)
  | OtherFrame string

text \<open>
  What \<^verbatim>\<open>MutagenFile(filepath)\<close> returns when it recognises the file:
  an \<^verbatim>\<open>MP4\<close> (its \<^verbatim>\<open>tags\<close> may be \<^verbatim>\<open>None\<close>), a \<^verbatim>\<open>FLAC\<close>, a file type of the ID3
  family (MP3, AIFF, WAVE, ...; \<^verbatim>\<open>tags\<close> is \<^verbatim>\<open>None\<close> or an ID3 tag), or any other
  recognised type (Ogg, APEv2, ASF, ...).  The tag objects of the last group do not
  offer the ID3 calls the script makes; the constructor carries the exception these
  calls end in.
\<close>

datatype audio =
    MP4 "mp4tags option"
  | FLAC flac
  | ID3File "frame list option"
  | OtherFile exn

subsection \<open>Log records and observable events\<close>

datatype level = INFO | WARNING | ERROR

text \<open>One constructor per logging call of the script, with the interpolated values.\<close>

datatype message =
    Processing string
  | File_already_has_cover_art
  | No_cover_art_found_analyzing
  | Failed_to_generate_fingerprint
  | Fingerprint_generated int
  | No_AcoustID_results_found
  | Found_AcoustID_results nat
  | Trying_release json json
  | Found_cover_art_URL json
  | Downloaded_cover_art nat
  | Successfully_added_cover_art
  | No_cover_art_could_be_found_or_embedded
  | Fpcalc_failed exn
  | Fpcalc_not_found
  | Failed_to_parse_fpcalc_output exn
  | AcoustID_error json
  | Failed_to_query_AcoustID exn
  | No_cover_art_found_for_release json
  | HTTP_error_fetching_cover_art exn
  | Failed_to_fetch_cover_art_URL exn
  | Failed_to_download_image exn
  | Unsupported_file_format
  | Successfully_embedded string
  | Failed_to_embed_cover_art exn
  | Error_checking_cover_art exn

text \<open>
  The three URLs the script opens.  Each is a fixed function of the values it is
  built from, so a request is identified by those values.  Formatting a value into a
  URL or a log line is taken not to raise.
\<close>

datatype request =
    AcoustID_lookup json int
  | CoverArt_release json
  | Image_url json

datatype event =
    Log level message
  | SubprocessRun "string list"
  | UrlOpen request
  | MutagenOpen string
  | MutagenSave string

text \<open>
  The world: everything done so far (oldest first) and the tag container that the tag
  reader finds in each file (\<open>None\<close>: it recognises no container).
\<close>

record world =
  trace :: "event list"
  files :: "string \<Rightarrow> audio option"

definition emit :: "event \<Rightarrow> world \<Rightarrow> world" where
  "emit ev w = w\<lparr>trace := trace w @ [ev]\<rparr>"

text \<open>
  The outside, as parameters.  Every answer may depend on the whole world, so on
  everything that happened before.
  \<^item> \<open>subprocess_run\<close>: \<^verbatim>\<open>subprocess.run(cmd, capture_output=True, text=True)\<close>:
    an exception, or the return code and the standard output;
  \<^item> \<open>urlopen_read\<close>: \<^verbatim>\<open>urlopen(url, timeout=30)\<close> and \<^verbatim>\<open>response.read()\<close>;
  \<^item> \<open>decode\<close>, \<open>json_loads\<close>, \<open>int_of_str\<close>: \<^verbatim>\<open>bytes.decode\<close>, \<^verbatim>\<open>json.loads\<close>
    and \<^verbatim>\<open>int\<close> on a string;
  \<^item> \<open>open_error\<close>: the exception \<^verbatim>\<open>MutagenFile\<close> raises, if it does;
  \<^item> \<open>save_outcome\<close>: \<open>None\<close> when \<^verbatim>\<open>audio.save()\<close> returns, otherwise the
    exception it raises and what the tag reader finds in the file afterwards.
\<close>

record env =
  subprocess_run :: "world \<Rightarrow> string list \<Rightarrow> exn + (int \<times> string)"
  urlopen_read :: "world \<Rightarrow> request \<Rightarrow> exn + bytes"
  decode :: "bytes \<Rightarrow> exn + string"
  json_loads :: "string \<Rightarrow> exn + json"
  int_of_str :: "string \<Rightarrow> int option"
  open_error :: "world \<Rightarrow> string \<Rightarrow> exn option"
  save_outcome :: "world \<Rightarrow> string \<Rightarrow> audio \<Rightarrow> (exn \<times> audio option) option"

section \<open>The pipeline stages\<close>

subsection \<open>\<^verbatim>\<open>has_cover_art\<close>\<close>

definition ffprobe_cmd :: "string \<Rightarrow> string list" where
  "ffprobe_cmd filepath =
     [''ffprobe'', ''-v'', ''quiet'', ''-print_format'', ''json'', ''-show_streams'',
      ''-select_streams'', ''v'', filepath]"

text \<open>The loop over the streams: \<open>Inr True\<close> is the \<^verbatim>\<open>return True\<close> inside it.\<close>

fun any_attached_pic :: "json list \<Rightarrow> exn + bool" where
  "any_attached_pic [] = Inr False"
| "any_attached_pic (stream # rest) =
     (case py_get stream ''disposition'' (JObj []) of
        Inl x \<Rightarrow> Inl x
      | Inr disposition \<Rightarrow>
          (case py_get disposition ''attached_pic'' JNull of
             Inl x \<Rightarrow> Inl x
           | Inr flag \<Rightarrow> if py_truthy flag then Inr True else any_attached_pic rest))"

text \<open>The body of the \<^verbatim>\<open>try\<close>; the run has no \<^verbatim>\<open>check=True\<close>, so the return code is ignored.\<close>

definition has_cover_art_try :: "env \<Rightarrow> world \<Rightarrow> string \<Rightarrow> exn + bool" where
  "has_cover_art_try e w filepath =
     ebind (subprocess_run e w (ffprobe_cmd filepath)) (\<lambda>(returncode, stdout).
     ebind (json_loads e stdout) (\<lambda>data.
     ebind (py_get data ''streams'' (JList [])) (\<lambda>streams.
     ebind (py_iter streams) any_attached_pic)))"

definition has_cover_art :: "env \<Rightarrow> world \<Rightarrow> string \<Rightarrow> bool \<times> world" where
  "has_cover_art e w filepath =
     (let w1 = emit (SubprocessRun (ffprobe_cmd filepath)) w in
      case has_cover_art_try e w filepath of
        Inr b \<Rightarrow> (b, w1)
      | Inl x \<Rightarrow> (False, emit (Log ERROR (Error_checking_cover_art x)) w1))"

subsection \<open>\<^verbatim>\<open>run_fpcalc\<close>\<close>

definition fpcalc_cmd :: "string \<Rightarrow> string list" where
  "fpcalc_cmd filepath = [''fpcalc'', ''-json'', ''-length'', ''120'', filepath]"

text \<open>\<^verbatim>\<open>check=True\<close>: a return code other than 0 raises \<^verbatim>\<open>CalledProcessError\<close>.\<close>

definition check_returncode :: "int \<times> string \<Rightarrow> exn + string" where
  "check_returncode r = (if fst r \<noteq> 0 then Inl (CalledProcessError (fst r)) else Inr (snd r))"

text \<open>
  The body of the \<^verbatim>\<open>try\<close>.  The returned pair is
  \<^verbatim>\<open>(data.get('fingerprint'), int(data.get('duration', 0)))\<close>; the duration is
  \<open>Some d\<close> here and \<open>None\<close> in the failure value \<^verbatim>\<open>(None, None)\<close>.
\<close>

definition run_fpcalc_try :: "env \<Rightarrow> world \<Rightarrow> string \<Rightarrow> exn + (json \<times> int option)" where
  "run_fpcalc_try e w filepath =
     ebind (subprocess_run e w (fpcalc_cmd filepath)) (\<lambda>result.
     ebind (check_returncode result) (\<lambda>stdout.
     ebind (json_loads e stdout) (\<lambda>data.
     ebind (py_get data ''fingerprint'' JNull) (\<lambda>fingerprint.
     ebind (py_get data ''duration'' (JInt 0)) (\<lambda>duration.
     ebind (py_int (int_of_str e) duration) (\<lambda>d.
     Inr (fingerprint, Some d)))))))"

text \<open>
  Three handlers; any other exception leaves \<^verbatim>\<open>run_fpcalc\<close> (and \<^verbatim>\<open>process_file\<close>)
  unhandled.
\<close>

definition run_fpcalc :: "env \<Rightarrow> world \<Rightarrow> string \<Rightarrow> (exn + (json \<times> int option)) \<times> world" where
  "run_fpcalc e w filepath =
     (let w1 = emit (SubprocessRun (fpcalc_cmd filepath)) w in
      case run_fpcalc_try e w filepath of
        Inr r \<Rightarrow> (Inr r, w1)
      | Inl x \<Rightarrow>
          (case x of
             CalledProcessError rc \<Rightarrow>
               (Inr (JNull, None), emit (Log ERROR (Fpcalc_failed x)) w1)
           | FileNotFoundError \<Rightarrow>
               (Inr (JNull, None), emit (Log ERROR Fpcalc_not_found) w1)
           | JSONDecodeError \<Rightarrow>
               (Inr (JNull, None), emit (Log ERROR (Failed_to_parse_fpcalc_output x)) w1)
           | _ \<Rightarrow> (Inl x, w1)))"

subsection \<open>\<^verbatim>\<open>lookup_acoustid\<close>\<close>

text \<open>
  \<^verbatim>\<open>with urlopen(url, timeout=30) as response: data = json.loads(response.read().decode())\<close>,
  the opening of both service calls.
\<close>

definition fetch_json :: "env \<Rightarrow> world \<Rightarrow> request \<Rightarrow> exn + json" where
  "fetch_json e w req =
     ebind (urlopen_read e w req) (\<lambda>body.
     ebind (decode e body) (\<lambda>text.
     json_loads e text))"

text \<open>
  The query string is built by \<^verbatim>\<open>urlencode\<close> before the \<^verbatim>\<open>try\<close>.  That call is
  taken not to raise: it does only on a fingerprint string that cannot be encoded (a lone
  surrogate), which the byte strings of this model do not contain.
\<close>

text \<open>
  The body of the \<^verbatim>\<open>try\<close>: \<open>Inr (Inl results)\<close> is the \<^verbatim>\<open>return\<close> of the
  \<^verbatim>\<open>status == 'ok'\<close> branch, \<open>Inr (Inr m)\<close> the \<^verbatim>\<open>else\<close> branch with the value
  \<^verbatim>\<open>data.get('error', {}).get('message')\<close> that it logs.
\<close>

definition lookup_acoustid_try :: "env \<Rightarrow> world \<Rightarrow> json \<Rightarrow> int \<Rightarrow> exn + (json + json)" where
  "lookup_acoustid_try e w fingerprint duration =
     ebind (fetch_json e w (AcoustID_lookup fingerprint duration)) (\<lambda>data.
     ebind (py_get data ''status'' JNull) (\<lambda>status.
       if status = JStr ''ok''
       then ebind (py_get data ''results'' (JList [])) (\<lambda>results. Inr (Inl results))
       else ebind (py_get data ''error'' (JObj [])) (\<lambda>err.
            ebind (py_get err ''message'' JNull) (\<lambda>m. Inr (Inr m)))))"

definition lookup_acoustid :: "env \<Rightarrow> world \<Rightarrow> json \<Rightarrow> int \<Rightarrow> json \<times> world" where
  "lookup_acoustid e w fingerprint duration =
     (let w1 = emit (UrlOpen (AcoustID_lookup fingerprint duration)) w in
      case lookup_acoustid_try e w fingerprint duration of
        Inr (Inl results) \<Rightarrow> (results, w1)
      | Inr (Inr m) \<Rightarrow> (JList [], emit (Log ERROR (AcoustID_error m)) w1)
      | Inl x \<Rightarrow> (JList [], emit (Log ERROR (Failed_to_query_AcoustID x)) w1))"

subsection \<open>\<^verbatim>\<open>get_cover_art_url\<close>\<close>

text \<open>
  The loop that prefers a front cover: \<open>Some v\<close> is its \<^verbatim>\<open>return img.get('image')\<close>,
  \<open>None\<close> means the loop ran to its end.
\<close>

fun first_front :: "json list \<Rightarrow> exn + json option" where
  "first_front [] = Inr None"
| "first_front (img # rest) =
     (case py_get img ''front'' JNull of
        Inl x \<Rightarrow> Inl x
      | Inr flag \<Rightarrow>
          if py_truthy flag
          then (case py_get img ''image'' JNull of Inl x \<Rightarrow> Inl x | Inr u \<Rightarrow> Inr (Some u))
          else first_front rest)"

text \<open>From \<^verbatim>\<open>images = data.get('images', [])\<close> to the last \<^verbatim>\<open>return None\<close>.\<close>

definition select_image :: "json \<Rightarrow> exn + json" where
  "select_image data =
     ebind (py_get data ''images'' (JList [])) (\<lambda>images.
     ebind (py_iter images) (\<lambda>imgs.
     ebind (first_front imgs) (\<lambda>r.
       case r of
         Some u \<Rightarrow> Inr u
       | None \<Rightarrow>
           if py_truthy images
           then ebind (py_subscript0 images) (\<lambda>img0. py_get img0 ''image'' JNull)
           else Inr JNull)))"

definition get_cover_art_url_try :: "env \<Rightarrow> world \<Rightarrow> json \<Rightarrow> exn + json" where
  "get_cover_art_url_try e w release_id =
     ebind (fetch_json e w (CoverArt_release release_id)) select_image"

text \<open>\<open>JNull\<close> is the \<^verbatim>\<open>None\<close> of the absent URL.\<close>

definition get_cover_art_url :: "env \<Rightarrow> world \<Rightarrow> json \<Rightarrow> json \<times> world" where
  "get_cover_art_url e w release_id =
     (let w1 = emit (UrlOpen (CoverArt_release release_id)) w in
      case get_cover_art_url_try e w release_id of
        Inr u \<Rightarrow> (u, w1)
      | Inl x \<Rightarrow>
          (case x of
             HTTPError code \<Rightarrow>
               if code = 404
               then (JNull, emit (Log WARNING (No_cover_art_found_for_release release_id)) w1)
               else (JNull, emit (Log ERROR (HTTP_error_fetching_cover_art x)) w1)
           | _ \<Rightarrow> (JNull, emit (Log ERROR (Failed_to_fetch_cover_art_URL x)) w1)))"

subsection \<open>\<^verbatim>\<open>download_image\<close>\<close>

definition download_image :: "env \<Rightarrow> world \<Rightarrow> json \<Rightarrow> bytes option \<times> world" where
  "download_image e w url =
     (let w1 = emit (UrlOpen (Image_url url)) w in
      case urlopen_read e w (Image_url url) of
        Inr body \<Rightarrow> (Some body, w1)
      | Inl x \<Rightarrow> (None, emit (Log ERROR (Failed_to_download_image x)) w1))"

subsection \<open>\<^verbatim>\<open>embed_cover_art\<close>\<close>

text \<open>\<^verbatim>\<open>MutagenFile(filepath)\<close>: raises, or returns what the tag reader finds.\<close>

definition MutagenFile :: "env \<Rightarrow> world \<Rightarrow> string \<Rightarrow> exn + audio option" where
  "MutagenFile e w filepath =
     (case open_error e w filepath of Some x \<Rightarrow> Inl x | None \<Rightarrow> Inr (files w filepath))"

definition clear_pictures :: "flac \<Rightarrow> flac" where
  "clear_pictures f = f\<lparr>pictures := []\<rparr>"

definition add_picture :: "Picture \<Rightarrow> flac \<Rightarrow> flac" where
  "add_picture p f = f\<lparr>pictures := pictures f @ [p]\<rparr>"

text \<open>\<^verbatim>\<open>not audio.tags\<close>: \<^verbatim>\<open>None\<close> and an ID3 tag without frames are both falsy.\<close>

definition id3_tags_falsy :: "frame list option \<Rightarrow> bool" where
  "id3_tags_falsy tags = (case tags of None \<Rightarrow> True | Some fs \<Rightarrow> fs = [])"

text \<open>\<^verbatim>\<open>audio.add_tags()\<close> of the ID3 family: refuses when a tag object exists.\<close>

definition add_tags :: "frame list option \<Rightarrow> exn + frame list" where
  "add_tags tags =
     (case tags of
        None \<Rightarrow> Inr []
      | Some fs \<Rightarrow> Inl (OtherException ''an ID3 tag already exists''))"

fun is_APIC :: "frame \<Rightarrow> bool" where
  "is_APIC (APIC enc m t d b) = True"
| "is_APIC (OtherFrame k) = False"

text \<open>\<^verbatim>\<open>tags.delall('APIC')\<close> and \<^verbatim>\<open>tags.add(frame)\<close>.\<close>

definition delall_APIC :: "frame list \<Rightarrow> frame list" where
  "delall_APIC fs = filter (\<lambda>f. \<not> is_APIC f) fs"

definition add_frame :: "frame \<Rightarrow> frame list \<Rightarrow> frame list" where
  "add_frame f fs = fs @ [f]"

text \<open>
  The dispatch on the container type, up to (not including) \<^verbatim>\<open>audio.save()\<close>:
  the container as changed in memory, or the exception met on the way.
\<close>

fun set_cover :: "audio \<Rightarrow> bytes \<Rightarrow> exn + audio" where
  "set_cover (MP4 None) image_data = Inl TypeError"
| "set_cover (MP4 (Some t)) image_data =
     Inr (MP4 (Some (t\<lparr>covr := [MP4Cover image_data FORMAT_JPEG]\<rparr>)))"
| "set_cover (FLAC f) image_data =
     (let picture = Picture_new\<lparr>pic_type := 3, pic_mime := ''image/jpeg'',
                                 pic_data := image_data\<rparr>
      in Inr (FLAC (add_picture picture (clear_pictures f))))"
| "set_cover (ID3File tags) image_data =
     ebind (if id3_tags_falsy tags then add_tags tags
            else (case tags of Some fs \<Rightarrow> Inr fs | None \<Rightarrow> Inr [])) (\<lambda>fs.
       Inr (ID3File (Some (add_frame (APIC 3 ''image/jpeg'' 3 ''Cover'' image_data)
                                     (delall_APIC fs)))))"
| "set_cover (OtherFile x) image_data = Inl x"

definition embed_cover_art :: "env \<Rightarrow> world \<Rightarrow> string \<Rightarrow> bytes \<Rightarrow> bool \<times> world" where
  "embed_cover_art e w filepath image_data =
     (let w1 = emit (MutagenOpen filepath) w in
      case MutagenFile e w filepath of
        Inl x \<Rightarrow> (False, emit (Log ERROR (Failed_to_embed_cover_art x)) w1)
      | Inr None \<Rightarrow> (False, emit (Log ERROR Unsupported_file_format) w1)
      | Inr (Some audio) \<Rightarrow>
          (case set_cover audio image_data of
             Inl x \<Rightarrow> (False, emit (Log ERROR (Failed_to_embed_cover_art x)) w1)
           | Inr audio' \<Rightarrow>
               (let w2 = emit (MutagenSave filepath) w1 in
                case save_outcome e w1 filepath audio' of
                  Some (x, left) \<Rightarrow>
                    (False, emit (Log ERROR (Failed_to_embed_cover_art x))
                                 (w2\<lparr>files := (files w2)(filepath := left)\<rparr>))
                | None \<Rightarrow>
                    (True, emit (Log INFO (Successfully_embedded filepath))
                                (w2\<lparr>files := (files w2)(filepath \<mapsto> audio')\<rparr>)))))"

subsection \<open>\<^verbatim>\<open>process_file\<close>\<close>

text \<open>
  The three nested \<^verbatim>\<open>for\<close> statements (\<^verbatim>\<open>not image_data\<close> holds for \<^verbatim>\<open>None\<close>
  and for no bytes at all).  Each returns \<open>Inr True\<close> for the
  \<^verbatim>\<open>return True\<close> in the innermost body, \<open>Inr False\<close> when the loop ran to its end,
  and \<open>Inl x\<close> for an exception nobody handles.
\<close>

fun try_releases :: "env \<Rightarrow> world \<Rightarrow> string \<Rightarrow> json list \<Rightarrow> (exn + bool) \<times> world" where
  "try_releases e w filepath [] = (Inr False, w)"
| "try_releases e w filepath (release # rest) =
     (case py_get release ''id'' JNull of
        Inl x \<Rightarrow> (Inl x, w)
      | Inr release_id \<Rightarrow>
          if \<not> py_truthy release_id then try_releases e w filepath rest
          else
            (case py_get release ''title'' (JStr ''Unknown'') of
               Inl x \<Rightarrow> (Inl x, w)
             | Inr title \<Rightarrow>
                 (case get_cover_art_url e (emit (Log INFO (Trying_release title release_id)) w)
                         release_id of
                    (cover_url, w2) \<Rightarrow>
                      if \<not> py_truthy cover_url then try_releases e w2 filepath rest
                      else
                        (case download_image e (emit (Log INFO (Found_cover_art_URL cover_url)) w2)
                                cover_url of
                           (None, w4) \<Rightarrow> try_releases e w4 filepath rest
                         | (Some image_data, w4) \<Rightarrow>
                             if image_data = [] then try_releases e w4 filepath rest
                             else
                               (case embed_cover_art e
                                       (emit (Log INFO (Downloaded_cover_art (length image_data))) w4)
                                       filepath image_data of
                                  (ok, w6) \<Rightarrow>
                                    if ok
                                    then (Inr True, emit (Log INFO Successfully_added_cover_art) w6)
                                    else try_releases e w6 filepath rest)))))"

fun try_recordings :: "env \<Rightarrow> world \<Rightarrow> string \<Rightarrow> json list \<Rightarrow> (exn + bool) \<times> world" where
  "try_recordings e w filepath [] = (Inr False, w)"
| "try_recordings e w filepath (recording # rest) =
     (case py_get recording ''releases'' (JList []) of
        Inl x \<Rightarrow> (Inl x, w)
      | Inr releases \<Rightarrow>
          if \<not> py_truthy releases then try_recordings e w filepath rest
          else
            (case py_iter releases of
               Inl x \<Rightarrow> (Inl x, w)
             | Inr rs \<Rightarrow>
                 (case try_releases e w filepath rs of
                    (Inr False, w') \<Rightarrow> try_recordings e w' filepath rest
                  | (r, w') \<Rightarrow> (r, w'))))"

fun try_results :: "env \<Rightarrow> world \<Rightarrow> string \<Rightarrow> json list \<Rightarrow> (exn + bool) \<times> world" where
  "try_results e w filepath [] = (Inr False, w)"
| "try_results e w filepath (result # rest) =
     (case py_get result ''recordings'' (JList []) of
        Inl x \<Rightarrow> (Inl x, w)
      | Inr recordings \<Rightarrow>
          if \<not> py_truthy recordings then try_results e w filepath rest
          else
            (case py_iter recordings of
               Inl x \<Rightarrow> (Inl x, w)
             | Inr rs \<Rightarrow>
                 (case try_recordings e w filepath rs of
                    (Inr False, w') \<Rightarrow> try_results e w' filepath rest
                  | (r, w') \<Rightarrow> (r, w'))))"

text \<open>
  From \<^verbatim>\<open>for result in results\<close> to the final \<^verbatim>\<open>return False\<close>; the
  \<^verbatim>\<open>len(results)\<close> of the log line before the loop raises on a value without length.
\<close>

definition process_results :: "env \<Rightarrow> world \<Rightarrow> string \<Rightarrow> json \<Rightarrow> (exn + bool) \<times> world" where
  "process_results e w filepath results =
     (case py_len results of
        Inl x \<Rightarrow> (Inl x, w)
      | Inr n \<Rightarrow>
          (case py_iter results of
             Inl x \<Rightarrow> (Inl x, emit (Log INFO (Found_AcoustID_results n)) w)
           | Inr rs \<Rightarrow>
               (case try_results e (emit (Log INFO (Found_AcoustID_results n)) w) filepath rs of
                  (Inr False, w') \<Rightarrow>
                    (Inr False, emit (Log WARNING No_cover_art_could_be_found_or_embedded) w')
                | (r, w') \<Rightarrow> (r, w'))))"

text \<open>
  \<^verbatim>\<open>process_file\<close>: \<open>Inr b\<close> is the returned boolean, \<open>Inl x\<close> an exception that
  leaves the function.
\<close>

definition process_file :: "env \<Rightarrow> world \<Rightarrow> string \<Rightarrow> (exn + bool) \<times> world" where
  "process_file e w filepath =
     (case has_cover_art e (emit (Log INFO (Processing filepath)) w) filepath of
        (has, w2) \<Rightarrow>
          if has then (Inr True, emit (Log INFO File_already_has_cover_art) w2)
          else
            (case run_fpcalc e (emit (Log INFO No_cover_art_found_analyzing) w2) filepath of
               (Inl x, w4) \<Rightarrow> (Inl x, w4)
             | (Inr (fingerprint, duration), w4) \<Rightarrow>
                 (case duration of
                    None \<Rightarrow> (Inr False, emit (Log ERROR Failed_to_generate_fingerprint) w4)
                  | Some d \<Rightarrow>
                      if \<not> py_truthy fingerprint \<or> d = 0
                      then (Inr False, emit (Log ERROR Failed_to_generate_fingerprint) w4)
                      else
                        (case lookup_acoustid e (emit (Log INFO (Fingerprint_generated d)) w4)
                                fingerprint d of
                           (results, w6) \<Rightarrow>
                             if \<not> py_truthy results
                             then (Inr False, emit (Log ERROR No_AcoustID_results_found) w6)
                             else process_results e w6 filepath results))))"

section \<open>Notions used to state the properties\<close>

text \<open>The network calls among the events of a world.\<close>

fun is_UrlOpen :: "event \<Rightarrow> bool" where
  "is_UrlOpen (UrlOpen r) = True"
| "is_UrlOpen _ = False"

definition network_calls :: "world \<Rightarrow> event list" where
  "network_calls w = filter is_UrlOpen (trace w)"

text \<open>
  The world in which \<^verbatim>\<open>process_file\<close> calls \<^verbatim>\<open>run_fpcalc\<close>, once the cover check has
  said no.
\<close>

definition fpcalc_world :: "env \<Rightarrow> world \<Rightarrow> string \<Rightarrow> world" where
  "fpcalc_world e w filepath =
     emit (Log INFO No_cover_art_found_analyzing)
          (snd (has_cover_art e (emit (Log INFO (Processing filepath)) w) filepath))"

text \<open>
  The three ways the fingerprinting step fails: the process exits with a failure
  (\<^verbatim>\<open>CalledProcessError\<close>, raised for a return code other than 0), the executable is
  missing (\<^verbatim>\<open>FileNotFoundError\<close>), the output is not JSON (\<^verbatim>\<open>JSONDecodeError\<close>).
\<close>

definition fpcalc_fails :: "env \<Rightarrow> world \<Rightarrow> string \<Rightarrow> bool" where
  "fpcalc_fails e w filepath =
     (case subprocess_run e w (fpcalc_cmd filepath) of
        Inl x \<Rightarrow> (case x of CalledProcessError rc \<Rightarrow> True | FileNotFoundError \<Rightarrow> True | _ \<Rightarrow> False)
      | Inr (rc, out) \<Rightarrow> rc \<noteq> 0 \<or> json_loads e out = Inl JSONDecodeError)"

text \<open>The parsed fpcalc output has no \<^verbatim>\<open>duration\<close>, or one that \<^verbatim>\<open>int\<close> turns into 0.\<close>

definition duration_zero_or_missing :: "env \<Rightarrow> (string \<times> json) list \<Rightarrow> bool" where
  "duration_zero_or_missing e kvs =
     (case map_of kvs ''duration'' of
        None \<Rightarrow> True
      | Some v \<Rightarrow> py_int (int_of_str e) v = Inr 0)"

text \<open>
  The art index lists image objects with a \<^verbatim>\<open>front\<close> flag and an \<^verbatim>\<open>image\<close> URL.
  \<open>front_else_first\<close> is the selection as the specification words it: the image
  flagged as front if there is one, else the first image, else nothing.
\<close>

fun is_object :: "json \<Rightarrow> bool" where
  "is_object (JObj kvs) = True"
| "is_object _ = False"

definition flagged_front :: "json \<Rightarrow> bool" where
  "flagged_front img = (case py_get img ''front'' JNull of Inr flag \<Rightarrow> py_truthy flag | Inl x \<Rightarrow> False)"

definition image_url_of :: "json \<Rightarrow> json" where
  "image_url_of img = (case py_get img ''image'' JNull of Inr u \<Rightarrow> u | Inl x \<Rightarrow> JNull)"

definition front_else_first :: "json list \<Rightarrow> json" where
  "front_else_first imgs =
     (case find flagged_front imgs of
        Some img \<Rightarrow> image_url_of img
      | None \<Rightarrow> (case imgs of [] \<Rightarrow> JNull | img0 # rest \<Rightarrow> image_url_of img0))"

text \<open>
  The orchestration as the specification words it.  One candidate release goes through
  ResolveArt (none: continue), FetchImage (none: continue) and EmbedArt (success: done;
  failure: continue); a release needs a non-empty identifier to enter the first stage.
\<close>

definition release_identifier :: "json \<Rightarrow> json option" where
  "release_identifier release =
     (case py_get release ''id'' JNull of
        Inr rid \<Rightarrow> if py_truthy rid then Some rid else None
      | Inl x \<Rightarrow> None)"

definition release_title :: "json \<Rightarrow> json" where
  "release_title release =
     (case py_get release ''title'' (JStr ''Unknown'') of Inr t \<Rightarrow> t | Inl x \<Rightarrow> JStr ''Unknown'')"

definition ResolveArt :: "env \<Rightarrow> world \<Rightarrow> json \<Rightarrow> json option \<times> world" where
  "ResolveArt e w release =
     (case release_identifier release of
        None \<Rightarrow> (None, w)
      | Some rid \<Rightarrow>
          (case get_cover_art_url e (emit (Log INFO (Trying_release (release_title release) rid)) w) rid of
             (url, w') \<Rightarrow> (if py_truthy url then Some url else None, w')))"

definition FetchImage :: "env \<Rightarrow> world \<Rightarrow> json \<Rightarrow> bytes option \<times> world" where
  "FetchImage e w url =
     (case download_image e (emit (Log INFO (Found_cover_art_URL url)) w) url of
        (None, w') \<Rightarrow> (None, w')
      | (Some b, w') \<Rightarrow> (if b = [] then None else Some b, w'))"

definition EmbedArt :: "env \<Rightarrow> world \<Rightarrow> string \<Rightarrow> bytes \<Rightarrow> bool \<times> world" where
  "EmbedArt e w filepath b =
     (case embed_cover_art e (emit (Log INFO (Downloaded_cover_art (length b))) w) filepath b of
        (ok, w') \<Rightarrow> (ok, if ok then emit (Log INFO Successfully_added_cover_art) w' else w'))"

definition attempt_release :: "env \<Rightarrow> world \<Rightarrow> string \<Rightarrow> json \<Rightarrow> bool \<times> world" where
  "attempt_release e w filepath release =
     (case ResolveArt e w release of
        (None, w1) \<Rightarrow> (False, w1)
      | (Some url, w1) \<Rightarrow>
          (case FetchImage e w1 url of
             (None, w2) \<Rightarrow> (False, w2)
           | (Some b, w2) \<Rightarrow> EmbedArt e w2 filepath b))"

text \<open>
  The sequential fallback scan: the candidates one after the other, success at the first
  release whose embed succeeds, failure when all are exhausted.
\<close>

fun scan_candidates :: "env \<Rightarrow> world \<Rightarrow> string \<Rightarrow> json list \<Rightarrow> bool \<times> world" where
  "scan_candidates e w filepath [] = (False, w)"
| "scan_candidates e w filepath (release # rest) =
     (case attempt_release e w filepath release of
        (True, w') \<Rightarrow> (True, w')
      | (False, w') \<Rightarrow> scan_candidates e w' filepath rest)"

text \<open>
  The candidate releases of a lookup result in nested iteration order: result, then its
  recordings, then the releases of each recording.
\<close>

fun list_field :: "json \<Rightarrow> string \<Rightarrow> json list" where
  "list_field (JObj kvs) k = (case map_of kvs k of Some (JList xs) \<Rightarrow> xs | _ \<Rightarrow> [])"
| "list_field _ k = []"

definition recording_releases :: "json \<Rightarrow> json list" where
  "recording_releases recording = list_field recording ''releases''"

definition result_releases :: "json \<Rightarrow> json list" where
  "result_releases result = concat (map recording_releases (list_field result ''recordings''))"

definition candidate_releases :: "json list \<Rightarrow> json list" where
  "candidate_releases results = concat (map result_releases results)"

text \<open>
  A well-formed candidate: a result object whose \<^verbatim>\<open>recordings\<close>, when present, is a
  list of recording objects, each with \<^verbatim>\<open>releases\<close>, when present, a list of release
  objects.
\<close>

fun lists_objects :: "json \<Rightarrow> string \<Rightarrow> bool" where
  "lists_objects (JObj kvs) k =
     (case map_of kvs k of
        None \<Rightarrow> True
      | Some (JList xs) \<Rightarrow> list_all is_object xs
      | Some _ \<Rightarrow> False)"
| "lists_objects _ k = False"

definition wf_recording :: "json \<Rightarrow> bool" where
  "wf_recording recording = lists_objects recording ''releases''"

definition wf_result :: "json \<Rightarrow> bool" where
  "wf_result result =
     (lists_objects result ''recordings'' \<and> list_all wf_recording (list_field result ''recordings''))"

text \<open>The world in which \<^verbatim>\<open>process_file\<close> calls \<^verbatim>\<open>lookup_acoustid\<close>.\<close>

definition lookup_world :: "env \<Rightarrow> world \<Rightarrow> string \<Rightarrow> int \<Rightarrow> world" where
  "lookup_world e w filepath d =
     emit (Log INFO (Fingerprint_generated d))
          (snd (run_fpcalc e (fpcalc_world e w filepath) filepath))"

text \<open>
  What re-reading a container yields: its attached pictures, each with its bytes, its MIME
  type (an MP4 cover carries an image format instead, read as the MIME type of that
  format), and its picture type and description where the format has them.
\<close>

datatype container_kind = MPEG4_family | FLAC_container | ID3_fallback | Other_container

fun kind_of :: "audio \<Rightarrow> container_kind" where
  "kind_of (MP4 t) = MPEG4_family"
| "kind_of (FLAC f) = FLAC_container"
| "kind_of (ID3File tags) = ID3_fallback"
| "kind_of (OtherFile x) = Other_container"

datatype attached_picture =
  Attached (att_data: bytes) (att_mime: string) (att_type: "nat option") (att_desc: "string option")

fun mime_of_format :: "ImageFormat \<Rightarrow> string" where
  "mime_of_format FORMAT_JPEG = ''image/jpeg''"
| "mime_of_format FORMAT_PNG = ''image/png''"

fun attached_pictures :: "audio \<Rightarrow> attached_picture list" where
  "attached_pictures (MP4 None) = []"
| "attached_pictures (MP4 (Some t)) =
     map (\<lambda>c. Attached (cover_data c) (mime_of_format (imageformat c)) None None) (covr t)"
| "attached_pictures (FLAC f) =
     map (\<lambda>p. Attached (pic_data p) (pic_mime p) (Some (pic_type p)) (Some (pic_desc p)))
         (pictures f)"
| "attached_pictures (ID3File None) = []"
| "attached_pictures (ID3File (Some fs)) =
     map (\<lambda>fr. Attached (apic_data fr) (apic_mime fr) (Some (apic_type fr)) (Some (apic_desc fr)))
         (filter is_APIC fs)"
| "attached_pictures (OtherFile x) = []"

text \<open>The one picture a container of each kind is to hold after the embed.\<close>

fun front_cover_of :: "container_kind \<Rightarrow> bytes \<Rightarrow> attached_picture" where
  "front_cover_of MPEG4_family payload = Attached payload ''image/jpeg'' None None"
| "front_cover_of FLAC_container payload = Attached payload ''image/jpeg'' (Some 3) (Some [])"
| "front_cover_of ID3_fallback payload = Attached payload ''image/jpeg'' (Some 3) (Some ''Cover'')"
| "front_cover_of Other_container payload = Attached payload ''image/jpeg'' None None"

text \<open>
  The embed reaches \<^verbatim>\<open>audio.save()\<close>: the tag reader returned a container and the
  change in memory raised nothing.
\<close>

definition save_called :: "env \<Rightarrow> world \<Rightarrow> string \<Rightarrow> bytes \<Rightarrow> bool" where
  "save_called e w filepath image_data =
     (case MutagenFile e w filepath of
        Inr (Some audio) \<Rightarrow> (case set_cover audio image_data of Inr audio' \<Rightarrow> True | Inl x \<Rightarrow> False)
      | _ \<Rightarrow> False)"

text \<open>The events a run has added to the trace of the world it started in.\<close>

definition events_since :: "world \<Rightarrow> world \<Rightarrow> event list" where
  "events_since w w' = drop (length (trace w)) (trace w')"

text \<open>
  From \<open>w\<close> to \<open>w'\<close> events were only added, and the file store changed only if
  \<^verbatim>\<open>audio.save()\<close> was called on the file in between.
\<close>

definition written_by_save_only :: "string \<Rightarrow> world \<Rightarrow> world \<Rightarrow> bool" where
  "written_by_save_only filepath w w' =
     (\<exists>evs. trace w' = trace w @ evs \<and> (MutagenSave filepath \<in> set evs \<or> files w' = files w))"



section \<open>A concrete outside world, for the examples\<close>

text \<open>
  Fixed answers of the two programs and the two services for a handful of files.  The
  process output and the HTTP bodies are named by short keys; \<open>demo_json_loads\<close> gives
  the JSON value each key stands for.
\<close>

definition demo_results :: "json list" where
  "demo_results =
     [JObj [(''id'', JStr ''res-1''),
            (''recordings'',
             JList [JObj [(''id'', JStr ''rec-1''),
                          (''releases'',
                           JList [JObj [(''id'', JStr ''rel-1''), (''title'', JStr ''First Pressing'')],
                                  JObj [(''id'', JStr ''rel-2'')]])]])]]"

definition demo_invalid_key :: "(string \<times> json) list" where
  "demo_invalid_key =
     [(''status'', JStr ''error''),
      (''error'', JObj [(''code'', JInt 4), (''message'', JStr ''invalid API key'')])]"

definition demo_rate_limit :: "(string \<times> json) list" where
  "demo_rate_limit = [(''status'', JStr ''error''), (''error'', JStr ''rate limit exceeded'')]"

definition demo_jpeg :: bytes where
  "demo_jpeg = [255, 216, 255, 224]"

definition demo_images_rel2 :: "json list" where
  "demo_images_rel2 =
     [JObj [(''front'', JBool False), (''image'', JStr ''http://img/back.jpg'')],
      JObj [(''front'', JBool True), (''image'', JStr ''http://img/front.jpg'')]]"

definition demo_images_rel3 :: "json list" where
  "demo_images_rel3 =
     [JObj [(''front'', JBool False), (''image'', JStr ''http://img/a.jpg'')],
      JObj [(''front'', JBool True)],
      JObj [(''front'', JBool True), (''image'', JStr ''http://img/c.jpg'')]]"

definition demo_images_rel4 :: "json list" where
  "demo_images_rel4 =
     [JObj [(''front'', JBool False), (''image'', JStr ''http://img/booklet.jpg'')],
      JObj [(''image'', JStr ''http://img/back.jpg'')]]"

definition demo_json_loads :: "string \<Rightarrow> exn + json" where
  "demo_json_loads s =
     (if s = ''probe:picture'' then
        Inr (JObj [(''streams'', JList [JObj [(''codec_name'', JStr ''mjpeg''),
                     (''disposition'', JObj [(''attached_pic'', JInt 1)])]])])
      else if s = ''probe:none'' then Inr (JObj [(''streams'', JList [])])
      else if s = ''fp:song'' then
        Inr (JObj [(''duration'', JFloat (Finite (1873 / 10))), (''fingerprint'', JStr ''AQADtEmU'')])
      else if s = ''fp:silent'' then
        Inr (JObj [(''duration'', JInt 0), (''fingerprint'', JStr ''AQAAAA'')])
      else if s = ''fp:unknown'' then
        Inr (JObj [(''duration'', JInt 42), (''fingerprint'', JStr ''AQAAxx'')])
      else if s = ''fp:odd'' then
        Inr (JObj [(''duration'', JInt 42), (''fingerprint'', JStr ''AQAByy'')])
      else if s = ''lookup:song'' then
        Inr (JObj [(''status'', JStr ''ok''), (''results'', JList demo_results)])
      else if s = ''lookup:invalid'' then Inr (JObj demo_invalid_key)
      else if s = ''lookup:odd'' then Inr (JObj demo_rate_limit)
      else if s = ''art:rel-2'' then Inr (JObj [(''images'', JList demo_images_rel2)])
      else if s = ''art:rel-3'' then Inr (JObj [(''images'', JList demo_images_rel3)])
      else if s = ''art:rel-4'' then Inr (JObj [(''images'', JList demo_images_rel4)])
      else Inl JSONDecodeError)"

definition demo_subprocess_run :: "world \<Rightarrow> string list \<Rightarrow> exn + (int \<times> string)" where
  "demo_subprocess_run w cmd =
     (if cmd = [] then Inl FileNotFoundError
      else if hd cmd = ''ffprobe'' then
        (if last cmd = ''covered.mp3'' then Inr (0, ''probe:picture'') else Inr (0, ''probe:none''))
      else if last cmd = ''song.flac'' \<or> last cmd = ''torn.flac'' \<or> last cmd = ''voice.ogg''
      then Inr (0, ''fp:song'')
      else if last cmd = ''silent.mp3'' then Inr (0, ''fp:silent'')
      else if last cmd = ''unknown.mp3'' then Inr (0, ''fp:unknown'')
      else if last cmd = ''odd.mp3'' then Inr (0, ''fp:odd'')
      else if last cmd = ''broken.mp3'' then Inr (1, [])
      else Inl FileNotFoundError)"

fun demo_urlopen_read :: "world \<Rightarrow> request \<Rightarrow> exn + bytes" where
  "demo_urlopen_read w (AcoustID_lookup f d) =
     (if f = JStr ''AQADtEmU'' then Inr [1]
      else if f = JStr ''AQAAxx'' then Inr [2]
      else if f = JStr ''AQAByy'' then Inr [3]
      else Inl (OtherException ''timed out''))"
| "demo_urlopen_read w (CoverArt_release rid) =
     (if rid = JStr ''rel-1'' then Inl (HTTPError 404)
      else if rid = JStr ''rel-2'' then Inr [4]
      else if rid = JStr ''rel-3'' then Inr [5]
      else if rid = JStr ''rel-4'' then Inr [6]
      else Inl (HTTPError 503))"
| "demo_urlopen_read w (Image_url u) =
     (if u = JStr ''http://img/front.jpg'' then Inr demo_jpeg
      else Inl (HTTPError 404))"

definition demo_decode :: "bytes \<Rightarrow> exn + string" where
  "demo_decode b =
     (if b = [1] then Inr ''lookup:song''
      else if b = [2] then Inr ''lookup:invalid''
      else if b = [3] then Inr ''lookup:odd''
      else if b = [4] then Inr ''art:rel-2''
      else if b = [5] then Inr ''art:rel-3''
      else if b = [6] then Inr ''art:rel-4''
      else Inl (OtherException ''UnicodeDecodeError''))"

text \<open>
  Saving \<^verbatim>\<open>torn.flac\<close> fails half-way: the save raises and the tag reader finds no
  container in the file afterwards.  Every other save succeeds.
\<close>

definition demo_save_outcome :: "world \<Rightarrow> string \<Rightarrow> audio \<Rightarrow> (exn \<times> audio option) option" where
  "demo_save_outcome w p a =
     (if p = ''torn.flac'' then Some (OtherException ''No space left on device'', None) else None)"

definition demo_env :: env where
  "demo_env =
     \<lparr>subprocess_run = demo_subprocess_run, urlopen_read = demo_urlopen_read,
      decode = demo_decode, json_loads = demo_json_loads, int_of_str = (\<lambda>s. None),
      open_error = (\<lambda>w p. None), save_outcome = demo_save_outcome\<rparr>"

definition demo_files :: "string \<Rightarrow> audio option" where
  "demo_files p =
     (if p = ''song.flac'' \<or> p = ''torn.flac'' then
        Some (FLAC \<lparr>pictures = [\<lparr>pic_type = 4, pic_mime = ''image/png'', pic_desc = ''back'', pic_data = [137, 80]\<rparr>],
                    vorbis_comments = [(''TITLE'', ''Song'')]\<rparr>)
      else if p = ''track.m4a'' then
        Some (MP4 (Some \<lparr>covr = [MP4Cover [137, 80] FORMAT_PNG, MP4Cover [255, 216] FORMAT_JPEG],
                         mp4_other = [(''nam'', ''Track'')]\<rparr>))
      else if p = ''tune.mp3'' then
        Some (ID3File (Some [OtherFrame ''TIT2'', APIC 0 ''image/png'' 4 ''back'' [137, 80]]))
      else if p = ''voice.ogg'' then Some (OtherFile AttributeError)
      else None)"

definition demo_world :: world where
  "demo_world = \<lparr>trace = [], files = demo_files\<rparr>"

section \<open>Basic facts\<close>

lemma ebind_Inl: "ebind (Inl x) f = Inl x"
  by (simp add: ebind_def)

lemma ebind_Inr: "ebind (Inr v) f = f v"
  by (simp add: ebind_def)

lemma trace_emit: "trace (emit ev w) = trace w @ [ev]"
  by (simp add: emit_def)

lemma files_emit: "files (emit ev w) = files w"
  by (simp add: emit_def)

lemmas demo_defs = demo_env_def demo_world_def demo_files_def demo_save_outcome_def demo_decode_def
  demo_subprocess_run_def demo_json_loads_def demo_images_rel2_def demo_images_rel3_def
  demo_images_rel4_def demo_results_def demo_jpeg_def demo_invalid_key_def demo_rate_limit_def

lemmas run_defs = ebind_Inl ebind_Inr emit_def Let_def ffprobe_cmd_def fpcalc_cmd_def
  has_cover_art_def has_cover_art_try_def

section \<open>The cover check\<close>

lemma has_cover_art_True:
  "fst (has_cover_art e w fp) \<Longrightarrow>
   snd (has_cover_art e w fp) = emit (SubprocessRun (ffprobe_cmd fp)) w"
  by (simp add: has_cover_art_def Let_def split: sum.splits)

lemma files_has_cover_art: "files (snd (has_cover_art e w fp)) = files w"
  by (simp add: has_cover_art_def Let_def files_emit split: sum.splits)

lemma network_has_cover_art: "network_calls (snd (has_cover_art e w fp)) = network_calls w"
  by (simp add: has_cover_art_def Let_def network_calls_def trace_emit split: sum.splits)

text \<open>
  C2.  When the cover check reports an attached picture, \<^verbatim>\<open>process_file\<close> returns
  \<^verbatim>\<open>True\<close>, and all it has done is: one log line, the ffprobe run, one more log line.
  No fpcalc run, no network call, no download, no opening or saving of the file by the
  tag library; the file store is as before.
\<close>

theorem process_file_skips_when_cover_present:
  assumes "fst (has_cover_art e (emit (Log INFO (Processing filepath)) w) filepath)"
  shows "fst (process_file e w filepath) = Inr True
       \<and> trace (snd (process_file e w filepath)) =
           trace w @ [Log INFO (Processing filepath), SubprocessRun (ffprobe_cmd filepath),
                      Log INFO File_already_has_cover_art]
       \<and> files (snd (process_file e w filepath)) = files w"
proof -
  let ?w1 = "emit (Log INFO (Processing filepath)) w"
  obtain has w2 where hc: "has_cover_art e ?w1 filepath = (has, w2)"
    by (cases "has_cover_art e ?w1 filepath")
  from assms hc have has by simp
  from has_cover_art_True [OF assms] hc
  have w2: "w2 = emit (SubprocessRun (ffprobe_cmd filepath)) ?w1" by simp
  have pf: "process_file e w filepath = (Inr True, emit (Log INFO File_already_has_cover_art) w2)"
    using hc \<open>has\<close> by (simp add: process_file_def)
  show ?thesis
    by (simp add: pf w2 trace_emit files_emit)
qed

theorem process_file_skips_when_cover_present_witness:
  "fst (has_cover_art demo_env (emit (Log INFO (Processing ''covered.mp3'')) demo_world) ''covered.mp3'')
   \<and> fst (process_file demo_env demo_world ''covered.mp3'') = Inr True
   \<and> trace (snd (process_file demo_env demo_world ''covered.mp3'')) =
       trace demo_world @ [Log INFO (Processing ''covered.mp3''),
                           SubprocessRun (ffprobe_cmd ''covered.mp3''),
                           Log INFO File_already_has_cover_art]
   \<and> files (snd (process_file demo_env demo_world ''covered.mp3'')) = files demo_world"
proof -
  have h: "fst (has_cover_art demo_env (emit (Log INFO (Processing ''covered.mp3'')) demo_world)
                  ''covered.mp3'')"
    by (simp add: run_defs demo_defs)
  show ?thesis
    using h process_file_skips_when_cover_present [OF h] by simp
qed

section \<open>The fingerprinting step\<close>

lemma run_fpcalc_fails:
  assumes "fpcalc_fails e w fp"
  shows "\<exists>m. run_fpcalc e w fp =
           (Inr (JNull, None), emit (Log ERROR m) (emit (SubprocessRun (fpcalc_cmd fp)) w))"
  using assms
  by (auto simp: fpcalc_fails_def run_fpcalc_def run_fpcalc_try_def Let_def ebind_Inl ebind_Inr
        check_returncode_def
      split: sum.splits exn.splits prod.splits if_splits)

lemma network_emit_Log: "network_calls (emit (Log l m) w) = network_calls w"
  by (simp add: network_calls_def trace_emit)

lemma network_emit_SubprocessRun: "network_calls (emit (SubprocessRun c) w) = network_calls w"
  by (simp add: network_calls_def trace_emit)

lemma network_fpcalc_world: "network_calls (fpcalc_world e w fp) = network_calls w"
  by (simp add: fpcalc_world_def network_emit_Log network_has_cover_art)

lemma process_file_no_cover:
  assumes "\<not> fst (has_cover_art e (emit (Log INFO (Processing fp)) w) fp)"
  shows "process_file e w fp =
     (case run_fpcalc e (fpcalc_world e w fp) fp of
        (Inl x, w4) \<Rightarrow> (Inl x, w4)
      | (Inr (fingerprint, duration), w4) \<Rightarrow>
          (case duration of
             None \<Rightarrow> (Inr False, emit (Log ERROR Failed_to_generate_fingerprint) w4)
           | Some d \<Rightarrow>
               if \<not> py_truthy fingerprint \<or> d = 0
               then (Inr False, emit (Log ERROR Failed_to_generate_fingerprint) w4)
               else
                 (case lookup_acoustid e (emit (Log INFO (Fingerprint_generated d)) w4)
                         fingerprint d of
                    (results, w6) \<Rightarrow>
                      if \<not> py_truthy results
                      then (Inr False, emit (Log ERROR No_AcoustID_results_found) w6)
                      else process_results e w6 fp results)))"
  using assms
  by (cases "has_cover_art e (emit (Log INFO (Processing fp)) w) fp")
     (simp add: process_file_def fpcalc_world_def)

text \<open>
  C3.  When the fingerprinting step fails (exit failure, missing executable or output
  that is not JSON), \<^verbatim>\<open>run_fpcalc\<close> returns the failure value \<^verbatim>\<open>(None, None)\<close> and
  opens no URL; \<^verbatim>\<open>process_file\<close>, when the cover check has said no, then returns
  \<^verbatim>\<open>False\<close>, and the network calls of its final world are those of the initial one:
  no AcoustID lookup, no art lookup, no download.
\<close>

theorem fingerprint_failure_reported_without_network:
  "(fpcalc_fails e w' filepath \<longrightarrow>
      fst (run_fpcalc e w' filepath) = Inr (JNull, None)
      \<and> network_calls (snd (run_fpcalc e w' filepath)) = network_calls w')
   \<and> (\<not> fst (has_cover_art e (emit (Log INFO (Processing filepath)) w) filepath)
        \<and> fpcalc_fails e (fpcalc_world e w filepath) filepath \<longrightarrow>
      fst (process_file e w filepath) = Inr False
      \<and> network_calls (snd (process_file e w filepath)) = network_calls w)"
proof (intro conjI impI)
  assume f: "fpcalc_fails e w' filepath"
  from run_fpcalc_fails [OF f] obtain m where
    r: "run_fpcalc e w' filepath =
          (Inr (JNull, None), emit (Log ERROR m) (emit (SubprocessRun (fpcalc_cmd filepath)) w'))"
    by blast
  show "fst (run_fpcalc e w' filepath) = Inr (JNull, None)"
    by (simp add: r)
  show "network_calls (snd (run_fpcalc e w' filepath)) = network_calls w'"
    by (simp add: r network_emit_Log network_emit_SubprocessRun)
next
  assume h: "\<not> fst (has_cover_art e (emit (Log INFO (Processing filepath)) w) filepath)
        \<and> fpcalc_fails e (fpcalc_world e w filepath) filepath"
  let ?w3 = "fpcalc_world e w filepath"
  from h run_fpcalc_fails obtain m where
    r: "run_fpcalc e ?w3 filepath =
          (Inr (JNull, None), emit (Log ERROR m) (emit (SubprocessRun (fpcalc_cmd filepath)) ?w3))"
    by blast
  have pf: "process_file e w filepath =
      (Inr False, emit (Log ERROR Failed_to_generate_fingerprint)
         (emit (Log ERROR m) (emit (SubprocessRun (fpcalc_cmd filepath)) ?w3)))"
    using h by (simp add: process_file_no_cover r)
  show "fst (process_file e w filepath) = Inr False"
    by (simp add: pf)
  show "network_calls (snd (process_file e w filepath)) = network_calls w"
    by (simp add: pf network_emit_Log network_emit_SubprocessRun network_fpcalc_world)
qed

theorem fingerprint_failure_reported_without_network_witness:
  "fpcalc_fails demo_env demo_world ''broken.mp3''
   \<and> \<not> fst (has_cover_art demo_env (emit (Log INFO (Processing ''broken.mp3'')) demo_world) ''broken.mp3'')
   \<and> fpcalc_fails demo_env (fpcalc_world demo_env demo_world ''broken.mp3'') ''broken.mp3''
   \<and> fst (run_fpcalc demo_env demo_world ''broken.mp3'') = Inr (JNull, None)
   \<and> network_calls (snd (run_fpcalc demo_env demo_world ''broken.mp3'')) = network_calls demo_world
   \<and> fst (process_file demo_env demo_world ''broken.mp3'') = Inr False
   \<and> network_calls (snd (process_file demo_env demo_world ''broken.mp3'')) = network_calls demo_world"
proof -
  have h1: "fpcalc_fails demo_env demo_world ''broken.mp3''"
    by (simp add: fpcalc_fails_def fpcalc_cmd_def demo_env_def demo_subprocess_run_def)
  have h2: "\<not> fst (has_cover_art demo_env (emit (Log INFO (Processing ''broken.mp3'')) demo_world) ''broken.mp3'')"
    by (simp add: run_defs demo_defs)
  have h3: "fpcalc_fails demo_env (fpcalc_world demo_env demo_world ''broken.mp3'') ''broken.mp3''"
    by (simp add: fpcalc_fails_def fpcalc_cmd_def demo_env_def demo_subprocess_run_def)
  show ?thesis
    using h1 h2 h3
      fingerprint_failure_reported_without_network
        [of demo_env demo_world "''broken.mp3''" demo_world]
    by simp
qed

text \<open>
  C9.  When fpcalc exits with 0 and prints a JSON object whose duration is missing or
  becomes 0 under \<^verbatim>\<open>int\<close>, \<^verbatim>\<open>run_fpcalc\<close> returns the fingerprint with duration 0,
  and \<^verbatim>\<open>process_file\<close> logs the fingerprint failure and returns \<^verbatim>\<open>False\<close>, whatever
  the fingerprint is: \<^verbatim>\<open>not duration\<close> holds for 0 as it does for \<^verbatim>\<open>None\<close>.
\<close>

theorem zero_duration_counts_as_fingerprint_failure:
  assumes "\<not> fst (has_cover_art e (emit (Log INFO (Processing filepath)) w) filepath)"
    and "subprocess_run e (fpcalc_world e w filepath) (fpcalc_cmd filepath) = Inr (0, out)"
    and "json_loads e out = Inr (JObj kvs)"
    and "duration_zero_or_missing e kvs"
  shows "fst (run_fpcalc e (fpcalc_world e w filepath) filepath) =
           Inr (case map_of kvs ''fingerprint'' of None \<Rightarrow> JNull | Some f \<Rightarrow> f, Some 0)
       \<and> process_file e w filepath =
           (Inr False,
            emit (Log ERROR Failed_to_generate_fingerprint)
              (emit (SubprocessRun (fpcalc_cmd filepath)) (fpcalc_world e w filepath)))"
proof -
  let ?w3 = "fpcalc_world e w filepath"
  let ?f = "case map_of kvs ''fingerprint'' of None \<Rightarrow> JNull | Some f \<Rightarrow> f"
  have d: "py_int (int_of_str e) (case map_of kvs ''duration'' of None \<Rightarrow> JInt 0 | Some v \<Rightarrow> v) = Inr 0"
    using assms(4)
    by (simp add: duration_zero_or_missing_def split: option.splits)
  have t: "run_fpcalc_try e ?w3 filepath = Inr (?f, Some 0)"
    using assms(2,3)
    by (simp add: run_fpcalc_try_def ebind_Inr check_returncode_def d)
  have r: "run_fpcalc e ?w3 filepath = (Inr (?f, Some 0), emit (SubprocessRun (fpcalc_cmd filepath)) ?w3)"
    by (simp add: run_fpcalc_def Let_def t)
  show ?thesis
    using assms(1) by (simp add: process_file_no_cover r)
qed

theorem zero_duration_counts_as_fingerprint_failure_witness:
  "\<not> fst (has_cover_art demo_env (emit (Log INFO (Processing ''silent.mp3'')) demo_world) ''silent.mp3'')
   \<and> subprocess_run demo_env (fpcalc_world demo_env demo_world ''silent.mp3'') (fpcalc_cmd ''silent.mp3'')
       = Inr (0, ''fp:silent'')
   \<and> json_loads demo_env ''fp:silent'' = Inr (JObj [(''duration'', JInt 0), (''fingerprint'', JStr ''AQAAAA'')])
   \<and> duration_zero_or_missing demo_env [(''duration'', JInt 0), (''fingerprint'', JStr ''AQAAAA'')]
   \<and> fst (run_fpcalc demo_env (fpcalc_world demo_env demo_world ''silent.mp3'') ''silent.mp3'')
       = Inr (JStr ''AQAAAA'', Some 0)
   \<and> fst (process_file demo_env demo_world ''silent.mp3'') = Inr False"
proof -
  have h1: "\<not> fst (has_cover_art demo_env (emit (Log INFO (Processing ''silent.mp3'')) demo_world) ''silent.mp3'')"
    by (simp add: run_defs demo_defs)
  have h2: "subprocess_run demo_env (fpcalc_world demo_env demo_world ''silent.mp3'') (fpcalc_cmd ''silent.mp3'')
       = Inr (0, ''fp:silent'')"
    by (simp add: fpcalc_cmd_def demo_env_def demo_subprocess_run_def)
  have h3: "json_loads demo_env ''fp:silent'' = Inr (JObj [(''duration'', JInt 0), (''fingerprint'', JStr ''AQAAAA'')])"
    by (simp add: demo_env_def demo_json_loads_def)
  have h4: "duration_zero_or_missing demo_env [(''duration'', JInt 0), (''fingerprint'', JStr ''AQAAAA'')]"
    by (simp add: duration_zero_or_missing_def)
  show ?thesis
    using h1 h2 h3 h4 zero_duration_counts_as_fingerprint_failure [OF h1 h2 h3 h4]
    by simp
qed

section \<open>The release resolver\<close>

lemma first_front_objects:
  "\<forall>img\<in>set imgs. is_object img \<Longrightarrow>
   first_front imgs = Inr (map_option image_url_of (find flagged_front imgs))"
proof (induction imgs)
  case Nil
  then show ?case by simp
next
  case (Cons img imgs)
  then obtain kvs where "img = JObj kvs" by (cases img) auto
  with Cons show ?case
    by (simp add: flagged_front_def image_url_of_def)
qed

lemma select_image_objects:
  assumes "py_get data ''images'' (JList []) = Inr (JList imgs)"
    and "\<forall>img\<in>set imgs. is_object img"
  shows "select_image data = Inr (front_else_first imgs)"
proof (cases "find flagged_front imgs")
  case None
  show ?thesis
  proof (cases imgs)
    case Nil
    then show ?thesis
      using assms(1) by (simp add: select_image_def ebind_Inr front_else_first_def)
  next
    case (Cons img0 rest)
    with assms(2) obtain kvs where "img0 = JObj kvs" by (cases img0) auto
    with Cons None first_front_objects [OF assms(2)] show ?thesis
      using assms(1)
      by (simp add: select_image_def ebind_Inr front_else_first_def image_url_of_def)
  qed
next
  case (Some img)
  with first_front_objects [OF assms(2)] show ?thesis
    using assms(1) by (simp add: select_image_def ebind_Inr front_else_first_def)
qed

text \<open>
  C5.  For an art-index response whose \<^verbatim>\<open>images\<close> is a list of objects,
  \<^verbatim>\<open>get_cover_art_url\<close> returns the \<^verbatim>\<open>image\<close> field of the first image flagged as
  front when there is one, otherwise that of the first listed image, otherwise
  \<^verbatim>\<open>None\<close>; it logs nothing.
\<close>

theorem get_cover_art_url_front_else_first:
  assumes "fetch_json e w (CoverArt_release release_id) = Inr data"
    and "py_get data ''images'' (JList []) = Inr (JList imgs)"
    and "list_all is_object imgs"
  shows "get_cover_art_url e w release_id =
           (front_else_first imgs, emit (UrlOpen (CoverArt_release release_id)) w)"
proof -
  from assms(3) have "\<forall>img\<in>set imgs. is_object img"
    by (simp add: list_all_iff)
  from select_image_objects [OF assms(2) this] assms(1) show ?thesis
    by (simp add: get_cover_art_url_def get_cover_art_url_try_def ebind_Inr Let_def)
qed

theorem get_cover_art_url_front_else_first_witness:
  "fetch_json demo_env demo_world (CoverArt_release (JStr ''rel-2'')) =
     Inr (JObj [(''images'', JList demo_images_rel2)])
   \<and> py_get (JObj [(''images'', JList demo_images_rel2)]) ''images'' (JList []) =
       Inr (JList demo_images_rel2)
   \<and> list_all is_object demo_images_rel2
   \<and> get_cover_art_url demo_env demo_world (JStr ''rel-2'') =
       (JStr ''http://img/front.jpg'', emit (UrlOpen (CoverArt_release (JStr ''rel-2''))) demo_world)"
proof -
  have h1: "fetch_json demo_env demo_world (CoverArt_release (JStr ''rel-2'')) =
     Inr (JObj [(''images'', JList demo_images_rel2)])"
    by (simp add: fetch_json_def ebind_Inr demo_env_def demo_decode_def demo_json_loads_def)
  have h2: "py_get (JObj [(''images'', JList demo_images_rel2)]) ''images'' (JList []) =
       Inr (JList demo_images_rel2)"
    by simp
  have h3: "list_all is_object demo_images_rel2"
    by (simp add: demo_images_rel2_def)
  have v: "front_else_first demo_images_rel2 = JStr ''http://img/front.jpg''"
    by (simp add: front_else_first_def demo_images_rel2_def flagged_front_def image_url_of_def)
  show ?thesis
    using h1 h2 h3 get_cover_art_url_front_else_first [OF h1 h2 h3] by (simp add: v)
qed

lemma get_cover_art_url_falls_back_to_first_image:
  "get_cover_art_url demo_env demo_world (JStr ''rel-4'') =
     (JStr ''http://img/booklet.jpg'', emit (UrlOpen (CoverArt_release (JStr ''rel-4''))) demo_world)"
  by (simp add: get_cover_art_url_def get_cover_art_url_try_def fetch_json_def select_image_def
        ebind_Inr Let_def demo_env_def demo_decode_def demo_json_loads_def demo_images_rel4_def)

lemma first_front_skips:
  "\<forall>i\<in>set pre. is_object i \<and> \<not> flagged_front i \<Longrightarrow>
   first_front (pre @ rest) = first_front rest"
proof (induction pre)
  case Nil
  then show ?case by simp
next
  case (Cons i pre)
  then obtain kvs where "i = JObj kvs" by (cases i) auto
  with Cons show ?case
    by (simp add: flagged_front_def)
qed

text \<open>
  C10.  When the first image flagged as front has no \<^verbatim>\<open>image\<close> field,
  \<^verbatim>\<open>get_cover_art_url\<close> returns \<^verbatim>\<open>None\<close>, whatever images come before and after
  it: there is no fallback to the first listed image.
\<close>

theorem front_entry_without_url_suppresses_other_images:
  assumes "fetch_json e w (CoverArt_release release_id) = Inr data"
    and "py_get data ''images'' (JList []) = Inr (JList (pre @ JObj kvs # post))"
    and "list_all (\<lambda>i. is_object i \<and> \<not> flagged_front i) pre"
    and "flagged_front (JObj kvs)"
    and "map_of kvs ''image'' = None"
  shows "get_cover_art_url e w release_id = (JNull, emit (UrlOpen (CoverArt_release release_id)) w)"
proof -
  from assms(3) have pre: "\<forall>i\<in>set pre. is_object i \<and> \<not> flagged_front i"
    by (simp add: list_all_iff)
  have "first_front (pre @ JObj kvs # post) = Inr (Some JNull)"
    using assms(4,5) by (simp add: first_front_skips [OF pre] flagged_front_def)
  then have "select_image data = Inr JNull"
    using assms(2) by (simp add: select_image_def ebind_Inr)
  then show ?thesis
    using assms(1)
    by (simp add: get_cover_art_url_def get_cover_art_url_try_def ebind_Inr Let_def)
qed

theorem front_entry_without_url_suppresses_other_images_witness:
  "fetch_json demo_env demo_world (CoverArt_release (JStr ''rel-3'')) =
     Inr (JObj [(''images'', JList demo_images_rel3)])
   \<and> py_get (JObj [(''images'', JList demo_images_rel3)]) ''images'' (JList []) =
       Inr (JList ([JObj [(''front'', JBool False), (''image'', JStr ''http://img/a.jpg'')]]
                   @ JObj [(''front'', JBool True)]
                   # [JObj [(''front'', JBool True), (''image'', JStr ''http://img/c.jpg'')]]))
   \<and> list_all (\<lambda>i. is_object i \<and> \<not> flagged_front i)
         [JObj [(''front'', JBool False), (''image'', JStr ''http://img/a.jpg'')]]
   \<and> flagged_front (JObj [(''front'', JBool True)])
   \<and> map_of [(''front'', JBool True)] ''image'' = None
   \<and> get_cover_art_url demo_env demo_world (JStr ''rel-3'') =
       (JNull, emit (UrlOpen (CoverArt_release (JStr ''rel-3''))) demo_world)"
proof -
  have h1: "fetch_json demo_env demo_world (CoverArt_release (JStr ''rel-3'')) =
     Inr (JObj [(''images'', JList demo_images_rel3)])"
    by (simp add: fetch_json_def ebind_Inr demo_env_def demo_decode_def demo_json_loads_def)
  have h2: "py_get (JObj [(''images'', JList demo_images_rel3)]) ''images'' (JList []) =
       Inr (JList ([JObj [(''front'', JBool False), (''image'', JStr ''http://img/a.jpg'')]]
                   @ JObj [(''front'', JBool True)]
                   # [JObj [(''front'', JBool True), (''image'', JStr ''http://img/c.jpg'')]]))"
    by (simp add: demo_images_rel3_def)
  have h3: "list_all (\<lambda>i. is_object i \<and> \<not> flagged_front i)
         [JObj [(''front'', JBool False), (''image'', JStr ''http://img/a.jpg'')]]"
    by (simp add: flagged_front_def)
  have h4: "flagged_front (JObj [(''front'', JBool True)])"
    by (simp add: flagged_front_def)
  have h5: "map_of [(''front'', JBool True)] ''image'' = None"
    by simp
  show ?thesis
    using h1 h2 h3 h4 h5 front_entry_without_url_suppresses_other_images [OF h1 h2 h3 h4 h5]
    by simp
qed

text \<open>
  C6.  When the release lookup raises \<^verbatim>\<open>HTTPError\<close>, \<^verbatim>\<open>get_cover_art_url\<close> returns
  \<^verbatim>\<open>None\<close>; status 404 is logged as a warning ("no cover art found"), any other
  status as an error.  In the loop of \<^verbatim>\<open>process_file\<close> a release whose lookup gives
  404 is left behind and the loop goes on with the remaining releases.
\<close>

theorem http_404_is_no_art_and_next_candidate:
  "(urlopen_read e w (CoverArt_release release_id) = Inl (HTTPError code) \<longrightarrow>
      get_cover_art_url e w release_id =
        (JNull,
         emit (if code = 404 then Log WARNING (No_cover_art_found_for_release release_id)
               else Log ERROR (HTTP_error_fetching_cover_art (HTTPError code)))
              (emit (UrlOpen (CoverArt_release release_id)) w)))
   \<and> (py_get release ''id'' JNull = Inr rid \<and> py_truthy rid
        \<and> py_get release ''title'' (JStr ''Unknown'') = Inr title
        \<and> urlopen_read e (emit (Log INFO (Trying_release title rid)) w) (CoverArt_release rid)
            = Inl (HTTPError 404) \<longrightarrow>
      try_releases e w filepath (release # rest) =
        try_releases e
          (emit (Log WARNING (No_cover_art_found_for_release rid))
             (emit (UrlOpen (CoverArt_release rid))
                (emit (Log INFO (Trying_release title rid)) w)))
          filepath rest)"
proof -
  have g: "get_cover_art_url e w' r =
        (JNull,
         emit (if c = 404 then Log WARNING (No_cover_art_found_for_release r)
               else Log ERROR (HTTP_error_fetching_cover_art (HTTPError c)))
              (emit (UrlOpen (CoverArt_release r)) w'))"
    if "urlopen_read e w' (CoverArt_release r) = Inl (HTTPError c)" for w' r c
    using that
    by (simp add: get_cover_art_url_def get_cover_art_url_try_def fetch_json_def ebind_Inl Let_def)
  show ?thesis
  proof (intro conjI impI)
    assume "urlopen_read e w (CoverArt_release release_id) = Inl (HTTPError code)"
    then show "get_cover_art_url e w release_id =
        (JNull,
         emit (if code = 404 then Log WARNING (No_cover_art_found_for_release release_id)
               else Log ERROR (HTTP_error_fetching_cover_art (HTTPError code)))
              (emit (UrlOpen (CoverArt_release release_id)) w))"
      by (rule g)
  next
    assume h: "py_get release ''id'' JNull = Inr rid \<and> py_truthy rid
        \<and> py_get release ''title'' (JStr ''Unknown'') = Inr title
        \<and> urlopen_read e (emit (Log INFO (Trying_release title rid)) w) (CoverArt_release rid)
            = Inl (HTTPError 404)"
    then have "get_cover_art_url e (emit (Log INFO (Trying_release title rid)) w) rid =
        (JNull, emit (Log WARNING (No_cover_art_found_for_release rid))
              (emit (UrlOpen (CoverArt_release rid)) (emit (Log INFO (Trying_release title rid)) w)))"
      using g [of "emit (Log INFO (Trying_release title rid)) w" rid 404] by simp
    with h show "try_releases e w filepath (release # rest) =
        try_releases e
          (emit (Log WARNING (No_cover_art_found_for_release rid))
             (emit (UrlOpen (CoverArt_release rid))
                (emit (Log INFO (Trying_release title rid)) w)))
          filepath rest"
      by simp
  qed
qed


theorem http_404_is_no_art_and_next_candidate_witness:
  "urlopen_read demo_env demo_world (CoverArt_release (JStr ''rel-1'')) = Inl (HTTPError 404)
   \<and> get_cover_art_url demo_env demo_world (JStr ''rel-1'') =
       (JNull, emit (Log WARNING (No_cover_art_found_for_release (JStr ''rel-1'')))
                 (emit (UrlOpen (CoverArt_release (JStr ''rel-1''))) demo_world))
   \<and> py_get (JObj [(''id'', JStr ''rel-1''), (''title'', JStr ''First Pressing'')]) ''id'' JNull
       = Inr (JStr ''rel-1'')
   \<and> py_truthy (JStr ''rel-1'')
   \<and> py_get (JObj [(''id'', JStr ''rel-1''), (''title'', JStr ''First Pressing'')]) ''title''
        (JStr ''Unknown'') = Inr (JStr ''First Pressing'')
   \<and> urlopen_read demo_env
        (emit (Log INFO (Trying_release (JStr ''First Pressing'') (JStr ''rel-1''))) demo_world)
        (CoverArt_release (JStr ''rel-1'')) = Inl (HTTPError 404)
   \<and> try_releases demo_env demo_world ''song.flac''
        [JObj [(''id'', JStr ''rel-1''), (''title'', JStr ''First Pressing'')]] =
       (Inr False,
        emit (Log WARNING (No_cover_art_found_for_release (JStr ''rel-1'')))
          (emit (UrlOpen (CoverArt_release (JStr ''rel-1'')))
             (emit (Log INFO (Trying_release (JStr ''First Pressing'') (JStr ''rel-1'')))
                demo_world)))"
proof -
  have h1: "urlopen_read demo_env w (CoverArt_release (JStr ''rel-1'')) = Inl (HTTPError 404)" for w
    by (simp add: demo_env_def)
  show ?thesis
    using h1
      http_404_is_no_art_and_next_candidate
        [of demo_env demo_world "JStr ''rel-1''" 404
            "JObj [(''id'', JStr ''rel-1''), (''title'', JStr ''First Pressing'')]"
            "JStr ''rel-1''" "JStr ''First Pressing''" "''song.flac''" "[]"]
    by simp
qed

section \<open>The scan over the candidates\<close>

lemma try_releases_object:
  "is_object release \<Longrightarrow>
   try_releases e w fp (release # rest) =
     (case attempt_release e w fp release of
        (True, w') \<Rightarrow> (Inr True, w')
      | (False, w') \<Rightarrow> try_releases e w' fp rest)"
  by (cases release)
     (auto simp: attempt_release_def ResolveArt_def FetchImage_def EmbedArt_def
        release_identifier_def release_title_def
      split: prod.splits option.splits bool.splits)

lemma try_releases_not_object:
  "\<not> is_object release \<Longrightarrow> try_releases e w fp (release # rest) = (Inl AttributeError, w)"
  by (cases release) auto

lemma try_releases_scan:
  "list_all is_object rs \<Longrightarrow>
   try_releases e w fp rs = (case scan_candidates e w fp rs of (ok, w') \<Rightarrow> (Inr ok, w'))"
proof (induction rs arbitrary: w)
  case Nil
  then show ?case by simp
next
  case (Cons r rs)
  then have r: "is_object r" and rs: "list_all is_object rs" by simp_all
  show ?case
    by (simp only: try_releases_object [OF r] scan_candidates.simps Cons.IH [OF rs])
       (simp split: prod.splits bool.splits)
qed

lemma scan_candidates_append:
  "scan_candidates e w fp (xs @ ys) =
     (case scan_candidates e w fp xs of
        (True, w') \<Rightarrow> (True, w')
      | (False, w') \<Rightarrow> scan_candidates e w' fp ys)"
  by (induction xs arbitrary: w) (auto split: prod.splits bool.splits)

lemma try_recordings_scan:
  "list_all wf_recording recs \<Longrightarrow>
   try_recordings e w fp recs =
     (case scan_candidates e w fp (concat (map recording_releases recs)) of
        (ok, w') \<Rightarrow> (Inr ok, w'))"
proof (induction recs arbitrary: w)
  case Nil
  then show ?case by simp
next
  case (Cons r recs)
  then have wr: "wf_recording r" and wrs: "list_all wf_recording recs" by simp_all
  from wr obtain kvs where r: "r = JObj kvs" by (cases r) (auto simp: wf_recording_def)
  show ?case
  proof (cases "map_of kvs ''releases''")
    case None
    then show ?thesis
      using Cons.IH [OF wrs] by (simp add: r recording_releases_def)
  next
    case (Some v)
    with wr r obtain xs where v: "v = JList xs" and xs: "list_all is_object xs"
      by (cases v) (auto simp: wf_recording_def)
    show ?thesis
    proof (cases "xs = []")
      case True
      then show ?thesis
        using Cons.IH [OF wrs] Some v by (simp add: r recording_releases_def)
    next
      case False
      then show ?thesis
        using Some v
        by (simp add: r recording_releases_def try_releases_scan [OF xs] scan_candidates_append
              Cons.IH [OF wrs] split: prod.splits bool.splits)
    qed
  qed
qed

lemma try_results_scan:
  "list_all wf_result results \<Longrightarrow>
   try_results e w fp results =
     (case scan_candidates e w fp (candidate_releases results) of (ok, w') \<Rightarrow> (Inr ok, w'))"
proof (induction results arbitrary: w)
  case Nil
  then show ?case by (simp add: candidate_releases_def)
next
  case (Cons r results)
  then have wr: "wf_result r" and wrs: "list_all wf_result results" by simp_all
  from wr obtain kvs where r: "r = JObj kvs" by (cases r) (auto simp: wf_result_def)
  note IH = Cons.IH [OF wrs, unfolded candidate_releases_def]
  show ?case
  proof (cases "map_of kvs ''recordings''")
    case None
    then show ?thesis
      using IH by (simp add: r candidate_releases_def result_releases_def)
  next
    case (Some v)
    with wr r obtain xs where v: "v = JList xs" and xs: "list_all wf_recording xs"
      by (cases v) (auto simp: wf_result_def)
    show ?thesis
    proof (cases "xs = []")
      case True
      then show ?thesis
        using IH Some v by (simp add: r candidate_releases_def result_releases_def)
    next
      case False
      then show ?thesis
        using Some v
        by (simp add: r candidate_releases_def result_releases_def try_recordings_scan [OF xs]
              scan_candidates_append IH split: prod.splits bool.splits)
    qed
  qed
qed

lemma process_results_scan:
  assumes "results \<noteq> []" and "list_all wf_result results"
  shows "process_results e w fp (JList results) =
     (case scan_candidates e (emit (Log INFO (Found_AcoustID_results (length results))) w) fp
             (candidate_releases results) of
        (True, w') \<Rightarrow> (Inr True, w')
      | (False, w') \<Rightarrow> (Inr False, emit (Log WARNING No_cover_art_could_be_found_or_embedded) w'))"
  by (simp add: process_results_def try_results_scan [OF assms(2)] split: prod.splits bool.splits)

text \<open>
  C1.  When the cover check says no, fpcalc gives a fingerprint and a duration other
  than 0, and the lookup returns a non-empty list of well-formed candidates,
  \<^verbatim>\<open>process_file\<close> is the sequential scan over the candidate releases in nested order
  (result, recording, release): a release is left behind when it has no identifier, when
  no art URL is resolved, when the download gives nothing or when the embed fails; the
  first release whose embed succeeds ends the run with \<^verbatim>\<open>True\<close>; when all are
  exhausted the run logs a warning and returns \<^verbatim>\<open>False\<close>.
\<close>

theorem process_file_scans_candidates_in_nested_order:
  assumes "\<not> fst (has_cover_art e (emit (Log INFO (Processing filepath)) w) filepath)"
    and "fst (run_fpcalc e (fpcalc_world e w filepath) filepath) = Inr (fingerprint, Some d)"
    and "py_truthy fingerprint" and "d \<noteq> 0"
    and "fst (lookup_acoustid e (lookup_world e w filepath d) fingerprint d) = JList results"
    and "results \<noteq> []" and "list_all wf_result results"
  shows "process_file e w filepath =
     (case scan_candidates e
             (emit (Log INFO (Found_AcoustID_results (length results)))
                (snd (lookup_acoustid e (lookup_world e w filepath d) fingerprint d)))
             filepath (candidate_releases results) of
        (True, w') \<Rightarrow> (Inr True, w')
      | (False, w') \<Rightarrow> (Inr False, emit (Log WARNING No_cover_art_could_be_found_or_embedded) w'))"
proof -
  obtain w4 where r: "run_fpcalc e (fpcalc_world e w filepath) filepath = (Inr (fingerprint, Some d), w4)"
    using assms(2) by (cases "run_fpcalc e (fpcalc_world e w filepath) filepath") simp
  then have lw: "lookup_world e w filepath d = emit (Log INFO (Fingerprint_generated d)) w4"
    by (simp add: lookup_world_def)
  obtain w6 where l: "lookup_acoustid e (emit (Log INFO (Fingerprint_generated d)) w4) fingerprint d
      = (JList results, w6)"
    using assms(5) lw
    by (cases "lookup_acoustid e (emit (Log INFO (Fingerprint_generated d)) w4) fingerprint d") simp
  have "process_file e w filepath = process_results e w6 filepath (JList results)"
    using assms(1,3,4,6) by (simp add: process_file_no_cover r l)
  then show ?thesis
    by (simp add: process_results_scan [OF assms(6,7)] lw l)
qed

lemmas stage_defs = run_fpcalc_def run_fpcalc_try_def check_returncode_def
  lookup_acoustid_def lookup_acoustid_try_def fetch_json_def
  get_cover_art_url_def get_cover_art_url_try_def select_image_def download_image_def
  embed_cover_art_def MutagenFile_def add_picture_def clear_pictures_def Picture_new_def
  process_results_def process_file_def fpcalc_world_def

lemma demo_no_cover:
  "\<not> fst (has_cover_art demo_env (emit (Log INFO (Processing ''song.flac'')) demo_world) ''song.flac'')"
  by (simp add: run_defs demo_defs)

lemma demo_duration: "truncate_rat (1873 / 10) = 187"
  by (simp add: truncate_rat_def floor_unique)

lemma demo_fingerprint:
  "fst (run_fpcalc demo_env w ''song.flac'') = Inr (JStr ''AQADtEmU'', Some 187)"
  by (simp add: run_defs stage_defs demo_duration demo_env_def demo_subprocess_run_def
        demo_json_loads_def)

lemma demo_lookup:
  "fst (lookup_acoustid demo_env w (JStr ''AQADtEmU'') 187) = JList demo_results"
  by (simp add: run_defs stage_defs demo_env_def demo_decode_def demo_json_loads_def)

lemma demo_results_wf: "list_all wf_result demo_results"
  by (simp add: demo_results_def wf_result_def wf_recording_def)

theorem process_file_scans_candidates_in_nested_order_witness:
  "\<not> fst (has_cover_art demo_env (emit (Log INFO (Processing ''song.flac'')) demo_world) ''song.flac'')
   \<and> fst (run_fpcalc demo_env (fpcalc_world demo_env demo_world ''song.flac'') ''song.flac'')
       = Inr (JStr ''AQADtEmU'', Some 187)
   \<and> py_truthy (JStr ''AQADtEmU'') \<and> (187::int) \<noteq> 0
   \<and> fst (lookup_acoustid demo_env (lookup_world demo_env demo_world ''song.flac'' 187)
             (JStr ''AQADtEmU'') 187) = JList demo_results
   \<and> demo_results \<noteq> [] \<and> list_all wf_result demo_results
   \<and> process_file demo_env demo_world ''song.flac'' =
     (case scan_candidates demo_env
             (emit (Log INFO (Found_AcoustID_results (length demo_results)))
                (snd (lookup_acoustid demo_env (lookup_world demo_env demo_world ''song.flac'' 187)
                        (JStr ''AQADtEmU'') 187)))
             ''song.flac'' (candidate_releases demo_results) of
        (True, w') \<Rightarrow> (Inr True, w')
      | (False, w') \<Rightarrow> (Inr False, emit (Log WARNING No_cover_art_could_be_found_or_embedded) w'))"
proof -
  have h3: "py_truthy (JStr ''AQADtEmU'')" by simp
  have h4: "(187::int) \<noteq> 0" by simp
  have h6: "demo_results \<noteq> []" by (simp add: demo_results_def)
  show ?thesis
    using demo_no_cover demo_fingerprint demo_lookup h3 h4 h6 demo_results_wf
      process_file_scans_candidates_in_nested_order
        [OF demo_no_cover demo_fingerprint h3 h4 demo_lookup h6 demo_results_wf]
    by simp
qed

lemma demo_candidates:
  "candidate_releases demo_results =
     [JObj [(''id'', JStr ''rel-1''), (''title'', JStr ''First Pressing'')], JObj [(''id'', JStr ''rel-2'')]]"
  by (simp add: candidate_releases_def result_releases_def recording_releases_def demo_results_def)

section \<open>The tag embedder\<close>

lemma filter_delall_APIC: "filter is_APIC (delall_APIC fs) = []"
  by (induction fs) (auto simp: delall_APIC_def)

lemma set_cover_single:
  assumes "set_cover a payload = Inr a'"
  shows "kind_of a' = kind_of a \<and> kind_of a \<noteq> Other_container
       \<and> attached_pictures a' = [front_cover_of (kind_of a) payload]"
proof (cases a)
  case (MP4 t)
  with assms show ?thesis by (cases t) auto
next
  case (FLAC f)
  with assms show ?thesis
    by (auto simp: Let_def add_picture_def clear_pictures_def Picture_new_def)
next
  case (ID3File tags)
  with assms show ?thesis
    by (auto simp: ebind_def add_frame_def filter_delall_APIC split: sum.splits)
next
  case (OtherFile x)
  with assms show ?thesis by simp
qed

lemma embed_cover_art_True:
  assumes "embed_cover_art e w fp payload = (True, w')"
  shows "\<exists>a a'. files w fp = Some a \<and> set_cover a payload = Inr a'
           \<and> files w' = (files w)(fp \<mapsto> a')"
  using assms
  by (auto simp: embed_cover_art_def MutagenFile_def Let_def files_emit fun_eq_iff
      split: sum.splits option.splits prod.splits)

text \<open>
  C7.  When \<^verbatim>\<open>embed_cover_art\<close> returns \<^verbatim>\<open>True\<close>, the file was one of the three
  container variants (MPEG-4 family, FLAC, ID3 fallback), it still is of that variant,
  and its container now holds exactly one attached picture: the payload, with MIME type
  \<^verbatim>\<open>image/jpeg\<close> (JPEG image format for MP4), of front-cover type 3 for FLAC and ID3,
  with description \<^verbatim>\<open>Cover\<close> for ID3.  Every picture embedded before is gone.
\<close>

theorem successful_embed_leaves_exactly_the_new_cover:
  assumes "embed_cover_art e w filepath payload = (True, w')"
  shows "\<exists>a a'. files w filepath = Some a \<and> files w' filepath = Some a'
           \<and> kind_of a' = kind_of a
           \<and> kind_of a \<noteq> Other_container
           \<and> attached_pictures a' = [front_cover_of (kind_of a) payload]"
proof -
  from embed_cover_art_True [OF assms] obtain a a' where
    a: "files w filepath = Some a" and s: "set_cover a payload = Inr a'"
    and f: "files w' = (files w)(filepath \<mapsto> a')"
    by blast
  from f have "files w' filepath = Some a'" by simp
  with a set_cover_single [OF s] show ?thesis by blast
qed

lemma demo_embed_ok:
  "p = ''song.flac'' \<or> p = ''track.m4a'' \<or> p = ''tune.mp3'' \<Longrightarrow>
   embed_cover_art demo_env demo_world p demo_jpeg =
     (True, snd (embed_cover_art demo_env demo_world p demo_jpeg))"
  by (rule prod_eqI)
     (auto simp: embed_cover_art_def MutagenFile_def Let_def ebind_Inr id3_tags_falsy_def
        demo_env_def demo_world_def demo_files_def demo_save_outcome_def emit_def)

theorem successful_embed_leaves_exactly_the_new_cover_witness:
  "embed_cover_art demo_env demo_world ''track.m4a'' demo_jpeg =
     (True, snd (embed_cover_art demo_env demo_world ''track.m4a'' demo_jpeg))
   \<and> (\<exists>a a'. files demo_world ''track.m4a'' = Some a
         \<and> files (snd (embed_cover_art demo_env demo_world ''track.m4a'' demo_jpeg)) ''track.m4a'' = Some a'
         \<and> kind_of a' = kind_of a \<and> kind_of a \<noteq> Other_container
         \<and> attached_pictures a' = [front_cover_of (kind_of a) demo_jpeg])
   \<and> embed_cover_art demo_env demo_world ''song.flac'' demo_jpeg =
     (True, snd (embed_cover_art demo_env demo_world ''song.flac'' demo_jpeg))
   \<and> (\<exists>a a'. files demo_world ''song.flac'' = Some a
         \<and> files (snd (embed_cover_art demo_env demo_world ''song.flac'' demo_jpeg)) ''song.flac'' = Some a'
         \<and> kind_of a' = kind_of a \<and> kind_of a \<noteq> Other_container
         \<and> attached_pictures a' = [front_cover_of (kind_of a) demo_jpeg])
   \<and> embed_cover_art demo_env demo_world ''tune.mp3'' demo_jpeg =
     (True, snd (embed_cover_art demo_env demo_world ''tune.mp3'' demo_jpeg))
   \<and> (\<exists>a a'. files demo_world ''tune.mp3'' = Some a
         \<and> files (snd (embed_cover_art demo_env demo_world ''tune.mp3'' demo_jpeg)) ''tune.mp3'' = Some a'
         \<and> kind_of a' = kind_of a \<and> kind_of a \<noteq> Other_container
         \<and> attached_pictures a' = [front_cover_of (kind_of a) demo_jpeg])"
proof -
  have m: "embed_cover_art demo_env demo_world ''track.m4a'' demo_jpeg =
     (True, snd (embed_cover_art demo_env demo_world ''track.m4a'' demo_jpeg))"
    by (rule demo_embed_ok) simp
  have f: "embed_cover_art demo_env demo_world ''song.flac'' demo_jpeg =
     (True, snd (embed_cover_art demo_env demo_world ''song.flac'' demo_jpeg))"
    by (rule demo_embed_ok) simp
  have i: "embed_cover_art demo_env demo_world ''tune.mp3'' demo_jpeg =
     (True, snd (embed_cover_art demo_env demo_world ''tune.mp3'' demo_jpeg))"
    by (rule demo_embed_ok) simp
  show ?thesis
    using m f i
      successful_embed_leaves_exactly_the_new_cover [OF m]
      successful_embed_leaves_exactly_the_new_cover [OF f]
      successful_embed_leaves_exactly_the_new_cover [OF i]
    by (intro conjI)
qed

text \<open>The three containers of the example after the embed.\<close>

lemma demo_embed_mp4:
  "files (snd (embed_cover_art demo_env demo_world ''track.m4a'' demo_jpeg)) ''track.m4a'' =
     Some (MP4 (Some \<lparr>covr = [MP4Cover demo_jpeg FORMAT_JPEG], mp4_other = [(''nam'', ''Track'')]\<rparr>))"
  by (simp add: embed_cover_art_def MutagenFile_def Let_def
        demo_env_def demo_world_def demo_files_def demo_save_outcome_def emit_def)

lemma demo_embed_flac:
  "files (snd (embed_cover_art demo_env demo_world ''song.flac'' demo_jpeg)) ''song.flac'' =
     Some (FLAC \<lparr>pictures = [\<lparr>pic_type = 3, pic_mime = ''image/jpeg'', pic_desc = [],
                                pic_data = demo_jpeg\<rparr>],
                  vorbis_comments = [(''TITLE'', ''Song'')]\<rparr>)"
  by (simp add: embed_cover_art_def MutagenFile_def Let_def add_picture_def clear_pictures_def
        Picture_new_def demo_env_def demo_world_def demo_files_def demo_save_outcome_def emit_def)

lemma demo_embed_id3:
  "files (snd (embed_cover_art demo_env demo_world ''tune.mp3'' demo_jpeg)) ''tune.mp3'' =
     Some (ID3File (Some [OtherFrame ''TIT2'', APIC 3 ''image/jpeg'' 3 ''Cover'' demo_jpeg]))"
  by (simp add: embed_cover_art_def MutagenFile_def Let_def ebind_Inr id3_tags_falsy_def
        add_frame_def delall_APIC_def
        demo_env_def demo_world_def demo_files_def demo_save_outcome_def emit_def)

section \<open>What changes the file\<close>

lemma files_get_cover_art_url: "files (snd (get_cover_art_url e w r)) = files w"
  by (simp add: get_cover_art_url_def Let_def files_emit split: sum.splits exn.splits)

lemma files_download_image: "files (snd (download_image e w u)) = files w"
  by (simp add: download_image_def Let_def files_emit split: sum.splits)

lemma files_lookup_acoustid: "files (snd (lookup_acoustid e w f d)) = files w"
  by (simp add: lookup_acoustid_def Let_def files_emit split: sum.splits)

lemma files_run_fpcalc: "files (snd (run_fpcalc e w fp)) = files w"
  by (simp add: run_fpcalc_def Let_def files_emit split: sum.splits exn.splits)

lemma files_fpcalc_world: "files (fpcalc_world e w fp) = files w"
  by (simp add: fpcalc_world_def files_emit files_has_cover_art)

lemma embed_cover_art_unsupported:
  "MutagenFile e w fp = Inr None \<Longrightarrow>
   embed_cover_art e w fp b =
     (False, emit (Log ERROR Unsupported_file_format) (emit (MutagenOpen fp) w))"
  by (simp add: embed_cover_art_def Let_def)

lemma written_refl: "written_by_save_only fp w w"
  by (simp add: written_by_save_only_def)

lemma written_trans:
  "written_by_save_only fp w w' \<Longrightarrow> written_by_save_only fp w' w'' \<Longrightarrow>
   written_by_save_only fp w w''"
  unfolding written_by_save_only_def by (elim exE conjE) (rule_tac x="evs @ evsa" in exI, auto)

lemma written_emit: "written_by_save_only fp w (emit ev w)"
  by (simp add: written_by_save_only_def trace_emit files_emit)

lemma written_emit_after:
  "written_by_save_only fp w w' \<Longrightarrow> written_by_save_only fp w (emit ev w')"
  by (rule written_trans [OF _ written_emit])

lemma written_after_emit:
  "written_by_save_only fp (emit ev w) w' \<Longrightarrow> written_by_save_only fp w w'"
  by (rule written_trans [OF written_emit])

lemma written_has_cover_art: "written_by_save_only fp w (snd (has_cover_art e w p))"
  by (simp add: has_cover_art_def Let_def written_emit written_emit_after split: sum.splits)

lemma written_run_fpcalc: "written_by_save_only fp w (snd (run_fpcalc e w p))"
  by (simp add: run_fpcalc_def Let_def written_emit written_emit_after
      split: sum.splits exn.splits)

lemma written_lookup_acoustid: "written_by_save_only fp w (snd (lookup_acoustid e w f d))"
  by (simp add: lookup_acoustid_def Let_def written_emit written_emit_after split: sum.splits)

lemma written_get_cover_art_url: "written_by_save_only fp w (snd (get_cover_art_url e w r))"
  by (simp add: get_cover_art_url_def Let_def written_emit written_emit_after
      split: sum.splits exn.splits)

lemma written_download_image: "written_by_save_only fp w (snd (download_image e w u))"
  by (simp add: download_image_def Let_def written_emit written_emit_after split: sum.splits)

lemma written_embed_cover_art: "written_by_save_only fp w (snd (embed_cover_art e w fp b))"
proof -
  have s: "written_by_save_only fp w
             (emit ev ((emit (MutagenSave fp) (emit (MutagenOpen fp) w))\<lparr>files := fs\<rparr>))" for ev fs
    unfolding written_by_save_only_def
    by (rule exI [of _ "[MutagenOpen fp, MutagenSave fp, ev]"]) (simp add: emit_def)
  show ?thesis
    by (simp add: embed_cover_art_def Let_def written_emit written_emit_after s
        split: sum.splits option.splits prod.splits)
qed

lemma embed_cover_art_before_save:
  "\<not> save_called e w fp b \<Longrightarrow>
   \<not> fst (embed_cover_art e w fp b) \<and> files (snd (embed_cover_art e w fp b)) = files w"
  by (auto simp: save_called_def embed_cover_art_def Let_def files_emit
      split: sum.splits option.splits)

lemma written_attempt_release: "written_by_save_only fp w (snd (attempt_release e w fp r))"
proof -
  have R: "written_by_save_only fp w (snd (ResolveArt e w r))"
    by (auto simp: ResolveArt_def split: option.splits prod.splits
        intro: written_refl written_after_emit
        dest: arg_cong [where f = snd])
       (metis snd_conv written_after_emit written_get_cover_art_url)
  have F: "written_by_save_only fp w1 (snd (FetchImage e w1 u))" for w1 u
    by (auto simp: FetchImage_def split: option.splits prod.splits)
       (metis snd_conv written_after_emit written_download_image)+
  have E: "written_by_save_only fp w2 (snd (EmbedArt e w2 fp b))" for w2 b
    by (auto simp: EmbedArt_def split: prod.splits)
       (metis snd_conv written_after_emit written_emit_after written_embed_cover_art)+
  show ?thesis
  proof (cases "ResolveArt e w r")
    case (Pair u w1)
    with R have 1: "written_by_save_only fp w w1" by simp
    show ?thesis
    proof (cases u)
      case None
      with Pair 1 show ?thesis by (simp add: attempt_release_def)
    next
      case (Some url)
      obtain i w2 where Fi: "FetchImage e w1 url = (i, w2)" by (cases "FetchImage e w1 url")
      with F [of w1 url] have 2: "written_by_save_only fp w1 w2" by simp
      show ?thesis
      proof (cases i)
        case None
        with Pair Some Fi written_trans [OF 1 2] show ?thesis by (simp add: attempt_release_def)
      next
        case (Some b)
        from written_trans [OF written_trans [OF 1 2] E [of w2 b]]
        show ?thesis using Pair \<open>u = Some url\<close> Fi Some by (simp add: attempt_release_def)
      qed
    qed
  qed
qed

lemma written_try_releases: "written_by_save_only fp w (snd (try_releases e w fp rs))"
proof (induction rs arbitrary: w)
  case Nil
  show ?case by (simp add: written_refl)
next
  case (Cons r rs)
  show ?case
  proof (cases "is_object r")
    case False
    then show ?thesis
      by (simp add: try_releases_not_object written_refl del: try_releases.simps)
  next
    case True
    obtain ok w' where a: "attempt_release e w fp r = (ok, w')"
      by (cases "attempt_release e w fp r")
    with written_attempt_release [of fp w e r] have 1: "written_by_save_only fp w w'" by simp
    show ?thesis
    proof (cases ok)
      case True
      with a 1 \<open>is_object r\<close> show ?thesis
        by (simp add: try_releases_object del: try_releases.simps)
    next
      case False
      with a \<open>is_object r\<close> written_trans [OF 1 Cons.IH [of w']] show ?thesis
        by (simp add: try_releases_object del: try_releases.simps)
    qed
  qed
qed

lemma written_try_recordings: "written_by_save_only fp w (snd (try_recordings e w fp recs))"
proof (induction recs arbitrary: w)
  case Nil
  show ?case by (simp add: written_refl)
next
  case (Cons r recs)
  show ?case
  proof (cases "py_get r ''releases'' (JList [])")
    case (Inl x)
    then show ?thesis by (simp add: written_refl)
  next
    case (Inr releases)
    show ?thesis
    proof (cases "py_truthy releases")
      case False
      with Inr Cons.IH show ?thesis by simp
    next
      case True
      show ?thesis
      proof (cases "py_iter releases")
        case (Inl x)
        with Inr True show ?thesis by (simp add: written_refl)
      next
        case (Inr rs)
        obtain res w' where t: "try_releases e w fp rs = (res, w')"
          by (cases "try_releases e w fp rs")
        with written_try_releases [of fp w e rs] have 1: "written_by_save_only fp w w'" by simp
        show ?thesis
        proof (cases "res = Inr False")
          case True
          with t \<open>py_get r ''releases'' (JList []) = Inr releases\<close> \<open>py_truthy releases\<close> Inr
            written_trans [OF 1 Cons.IH [of w']]
          show ?thesis by simp
        next
          case False
          with t \<open>py_get r ''releases'' (JList []) = Inr releases\<close> \<open>py_truthy releases\<close> Inr
          have "try_recordings e w fp (r # recs) = (res, w')"
            by (auto split: sum.splits bool.splits)
          with 1 show ?thesis by simp
        qed
      qed
    qed
  qed
qed

lemma written_try_results: "written_by_save_only fp w (snd (try_results e w fp results))"
proof (induction results arbitrary: w)
  case Nil
  show ?case by (simp add: written_refl)
next
  case (Cons r results)
  show ?case
  proof (cases "py_get r ''recordings'' (JList [])")
    case (Inl x)
    then show ?thesis by (simp add: written_refl)
  next
    case (Inr recordings)
    show ?thesis
    proof (cases "py_truthy recordings")
      case False
      with Inr Cons.IH show ?thesis by simp
    next
      case True
      show ?thesis
      proof (cases "py_iter recordings")
        case (Inl x)
        with Inr True show ?thesis by (simp add: written_refl)
      next
        case (Inr rs)
        obtain res w' where t: "try_recordings e w fp rs = (res, w')"
          by (cases "try_recordings e w fp rs")
        with written_try_recordings [of fp w e rs] have 1: "written_by_save_only fp w w'" by simp
        show ?thesis
        proof (cases "res = Inr False")
          case True
          with t \<open>py_get r ''recordings'' (JList []) = Inr recordings\<close> \<open>py_truthy recordings\<close> Inr
            written_trans [OF 1 Cons.IH [of w']]
          show ?thesis by simp
        next
          case False
          with t \<open>py_get r ''recordings'' (JList []) = Inr recordings\<close> \<open>py_truthy recordings\<close> Inr
          have "try_results e w fp (r # results) = (res, w')"
            by (auto split: sum.splits bool.splits)
          with 1 show ?thesis by simp
        qed
      qed
    qed
  qed
qed


lemma written_process_results: "written_by_save_only fp w (snd (process_results e w fp results))"
proof (cases "py_len results")
  case (Inl x)
  then show ?thesis by (simp add: process_results_def written_refl)
next
  case (Inr n)
  show ?thesis
  proof (cases "py_iter results")
    case (Inl x)
    with Inr show ?thesis by (simp add: process_results_def written_emit)
  next
    case (Inr rs)
    let ?w1 = "emit (Log INFO (Found_AcoustID_results n)) w"
    obtain res w' where t: "try_results e ?w1 fp rs = (res, w')"
      by (cases "try_results e ?w1 fp rs")
    with written_try_results [of fp ?w1 e rs] have 1: "written_by_save_only fp w w'"
      by (simp add: written_after_emit)
    have eq: "process_results e w fp results =
        (if res = Inr False
         then (Inr False, emit (Log WARNING No_cover_art_could_be_found_or_embedded) w')
         else (res, w'))"
      using \<open>py_len results = Inr n\<close> Inr t
      by (auto simp: process_results_def split: sum.splits bool.splits)
    show ?thesis
      using 1 by (simp add: eq written_emit_after)
  qed
qed

lemma written_process_file: "written_by_save_only fp w (snd (process_file e w fp))"
proof -
  let ?w1 = "emit (Log INFO (Processing fp)) w"
  obtain has w2 where hc: "has_cover_art e ?w1 fp = (has, w2)"
    by (cases "has_cover_art e ?w1 fp")
  with written_has_cover_art [of fp ?w1 e fp] have 2: "written_by_save_only fp w w2"
    by (simp add: written_after_emit)
  show ?thesis
  proof (cases has)
    case True
    with hc 2 show ?thesis by (simp add: process_file_def written_emit_after)
  next
    case False
    let ?w3 = "emit (Log INFO No_cover_art_found_analyzing) w2"
    obtain r w4 where rf: "run_fpcalc e ?w3 fp = (r, w4)" by (cases "run_fpcalc e ?w3 fp")
    with written_run_fpcalc [of fp ?w3 e fp] have "written_by_save_only fp w2 w4"
      by (simp add: written_after_emit)
    with 2 have 4: "written_by_save_only fp w w4" by (rule written_trans)
    show ?thesis
    proof (cases r)
      case (Inl x)
      with hc False rf 4 show ?thesis by (simp add: process_file_def)
    next
      case (Inr fd)
      obtain fingerprint duration where fd: "fd = (fingerprint, duration)" by (cases fd)
      show ?thesis
      proof (cases duration)
        case None
        with hc False rf Inr fd 4 show ?thesis
          by (simp add: process_file_def written_emit_after)
      next
        case (Some d)
        show ?thesis
        proof (cases "\<not> py_truthy fingerprint \<or> d = 0")
          case True
          with hc False rf Inr fd Some 4 show ?thesis
            by (auto simp: process_file_def written_emit_after)
        next
          case go: False
          let ?w5 = "emit (Log INFO (Fingerprint_generated d)) w4"
          obtain results w6 where l: "lookup_acoustid e ?w5 fingerprint d = (results, w6)"
            by (cases "lookup_acoustid e ?w5 fingerprint d")
          with written_lookup_acoustid [of fp ?w5 e fingerprint d]
          have "written_by_save_only fp w4 w6" by (simp add: written_after_emit)
          with 4 have 6: "written_by_save_only fp w w6" by (rule written_trans)
          show ?thesis
          proof (cases "py_truthy results")
            case False
            with hc \<open>\<not> has\<close> rf Inr fd Some go l 6 show ?thesis
              by (auto simp: process_file_def written_emit_after)
          next
            case True
            with hc \<open>\<not> has\<close> rf Inr fd Some go l
            have "process_file e w fp = process_results e w6 fp results"
              by (auto simp: process_file_def)
            with written_trans [OF 6 written_process_results [of fp w6 e results]]
            show ?thesis by simp
          qed
        qed
      qed
    qed
  qed
qed

lemma written_without_save:
  assumes "written_by_save_only fp w w'"
    and "MutagenSave fp \<notin> set (events_since w w')"
  shows "files w' = files w"
  using assms by (auto simp: written_by_save_only_def events_since_def)

text \<open>
  C8, as amended.  When the tag reader recognises no container, \<^verbatim>\<open>embed_cover_art\<close>
  logs "unsupported file format", returns \<^verbatim>\<open>False\<close> and leaves the file store as it
  was.  Every embed that does not reach \<^verbatim>\<open>audio.save()\<close> fails and leaves the file
  store as it was.  A run of \<^verbatim>\<open>process_file\<close> in which \<^verbatim>\<open>audio.save()\<close> is never
  called on the file leaves the file store as it was: nothing but the save writes.
  Nothing is said of a save that raises: the script has no protection of its own, and
  the file is then what the tag library left.
\<close>

theorem file_changes_only_through_save:
  "(MutagenFile e w filepath = Inr None \<longrightarrow>
      embed_cover_art e w filepath image_data =
        (False, emit (Log ERROR Unsupported_file_format) (emit (MutagenOpen filepath) w))
      \<and> files (snd (embed_cover_art e w filepath image_data)) = files w)
   \<and> (\<not> save_called e w filepath image_data \<longrightarrow>
        \<not> fst (embed_cover_art e w filepath image_data)
        \<and> files (snd (embed_cover_art e w filepath image_data)) = files w)
   \<and> (MutagenSave filepath \<notin> set (events_since w (snd (process_file e w filepath))) \<longrightarrow>
        files (snd (process_file e w filepath)) = files w)"
proof (intro conjI impI)
  assume "MutagenFile e w filepath = Inr None"
  then show "embed_cover_art e w filepath image_data =
        (False, emit (Log ERROR Unsupported_file_format) (emit (MutagenOpen filepath) w))"
    by (rule embed_cover_art_unsupported)
  then show "files (snd (embed_cover_art e w filepath image_data)) = files w"
    by (simp add: files_emit)
next
  assume "\<not> save_called e w filepath image_data"
  from embed_cover_art_before_save [OF this]
  show "\<not> fst (embed_cover_art e w filepath image_data)"
    and "files (snd (embed_cover_art e w filepath image_data)) = files w"
    by simp_all
next
  assume "MutagenSave filepath \<notin> set (events_since w (snd (process_file e w filepath)))"
  with written_process_file show "files (snd (process_file e w filepath)) = files w"
    by (rule written_without_save)
qed

lemma demo_unsupported: "MutagenFile demo_env demo_world ''notes.txt'' = Inr None"
  by (simp add: MutagenFile_def demo_env_def demo_world_def demo_files_def)

lemma demo_ogg_not_saved: "\<not> save_called demo_env demo_world ''voice.ogg'' demo_jpeg"
  by (simp add: save_called_def MutagenFile_def demo_env_def demo_world_def demo_files_def)

lemma demo_ogg_run:
  "events_since demo_world (snd (process_file demo_env demo_world ''voice.ogg'')) =
     [Log INFO (Processing ''voice.ogg''),
      SubprocessRun (ffprobe_cmd ''voice.ogg''),
      Log INFO No_cover_art_found_analyzing,
      SubprocessRun (fpcalc_cmd ''voice.ogg''),
      Log INFO (Fingerprint_generated 187),
      UrlOpen (AcoustID_lookup (JStr ''AQADtEmU'') 187),
      Log INFO (Found_AcoustID_results 1),
      Log INFO (Trying_release (JStr ''First Pressing'') (JStr ''rel-1'')),
      UrlOpen (CoverArt_release (JStr ''rel-1'')),
      Log WARNING (No_cover_art_found_for_release (JStr ''rel-1'')),
      Log INFO (Trying_release (JStr ''Unknown'') (JStr ''rel-2'')),
      UrlOpen (CoverArt_release (JStr ''rel-2'')),
      Log INFO (Found_cover_art_URL (JStr ''http://img/front.jpg'')),
      UrlOpen (Image_url (JStr ''http://img/front.jpg'')),
      Log INFO (Downloaded_cover_art 4),
      MutagenOpen ''voice.ogg'',
      Log ERROR (Failed_to_embed_cover_art AttributeError),
      Log WARNING No_cover_art_could_be_found_or_embedded]"
  by (simp add: events_since_def run_defs stage_defs demo_defs demo_duration)

theorem file_changes_only_through_save_witness:
  "MutagenFile demo_env demo_world ''notes.txt'' = Inr None
   \<and> embed_cover_art demo_env demo_world ''notes.txt'' demo_jpeg =
        (False, emit (Log ERROR Unsupported_file_format) (emit (MutagenOpen ''notes.txt'') demo_world))
   \<and> files (snd (embed_cover_art demo_env demo_world ''notes.txt'' demo_jpeg)) = files demo_world
   \<and> \<not> save_called demo_env demo_world ''voice.ogg'' demo_jpeg
   \<and> \<not> fst (embed_cover_art demo_env demo_world ''voice.ogg'' demo_jpeg)
   \<and> files (snd (embed_cover_art demo_env demo_world ''voice.ogg'' demo_jpeg)) = files demo_world
   \<and> MutagenSave ''voice.ogg''
        \<notin> set (events_since demo_world (snd (process_file demo_env demo_world ''voice.ogg'')))
   \<and> files (snd (process_file demo_env demo_world ''voice.ogg'')) = files demo_world"
proof -
  have h: "MutagenSave ''voice.ogg''
        \<notin> set (events_since demo_world (snd (process_file demo_env demo_world ''voice.ogg'')))"
    by (simp add: demo_ogg_run)
  show ?thesis
    using demo_unsupported demo_ogg_not_saved h
      file_changes_only_through_save [of demo_env demo_world "''notes.txt''" demo_jpeg]
      file_changes_only_through_save [of demo_env demo_world "''voice.ogg''" demo_jpeg]
    by (simp add: files_emit)
qed

text \<open>
  The claim as first stated (no embedding failure changes the file) fails when the save
  itself raises after it has begun to write: the embed returns \<^verbatim>\<open>False\<close>, the run
  returns \<^verbatim>\<open>False\<close>, and the file no longer holds what it held.
\<close>

theorem failed_save_changes_file_counterexample:
  "\<not> fst (embed_cover_art demo_env demo_world ''torn.flac'' demo_jpeg)
   \<and> fst (process_file demo_env demo_world ''torn.flac'') = Inr False
   \<and> files demo_world ''torn.flac'' =
       Some (FLAC \<lparr>pictures = [\<lparr>pic_type = 4, pic_mime = ''image/png'', pic_desc = ''back'',
                                  pic_data = [137, 80]\<rparr>],
                    vorbis_comments = [(''TITLE'', ''Song'')]\<rparr>)
   \<and> files (snd (embed_cover_art demo_env demo_world ''torn.flac'' demo_jpeg)) ''torn.flac'' = None
   \<and> files (snd (process_file demo_env demo_world ''torn.flac'')) ''torn.flac'' = None"
  by (simp add: run_defs stage_defs demo_defs demo_duration)

text \<open>
  The end-to-end scenario: no cover, one lookup result, the first release without art
  (404), the second with a front image; the file ends with exactly that picture.
\<close>

lemma demo_end_to_end:
  "fst (process_file demo_env demo_world ''song.flac'') = Inr True
   \<and> files (snd (process_file demo_env demo_world ''song.flac'')) ''song.flac'' =
       Some (FLAC \<lparr>pictures = [\<lparr>pic_type = 3, pic_mime = ''image/jpeg'', pic_desc = [],
                                  pic_data = demo_jpeg\<rparr>],
                    vorbis_comments = [(''TITLE'', ''Song'')]\<rparr>)"
  by (simp add: run_defs stage_defs demo_defs demo_duration)

section \<open>The fingerprint lookup\<close>










end
